theory Spec2Isabelle
  imports Main "HOL-Library.AList"
begin

section \<open>Analytics dynamic config: data (get-config.ts)\<close>

text \<open>
  JavaScript numbers are modelled as unbounded integers, timestamps are milliseconds.
  A property that may be \<^verbatim>\<open>undefined\<close> is an \<open>option\<close>. The process-wide object
  \<^verbatim>\<open>appThrottleMetadata\<close> is a map from app ids to metadata.
\<close>

record ThrottleMetadata =
  backoffCount :: int
  throttleEndTimeMillis :: int

record FirebaseOptions =
  apiKey :: "string option"
  appId :: "string option"

record FirebaseApp =
  options :: FirebaseOptions

text \<open>
  The response payload. The declared type has both fields; the test's endpoint answers
  with \<^verbatim>\<open>{ measurementId }\<close> only, so a field may be absent.
\<close>

record DynamicConfig =
  measurementId :: "string option"
  config_appId :: "string option"

text \<open>Members of the enum \<^verbatim>\<open>AnalyticsError\<close> that the sources use.\<close>

datatype AnalyticsError = FETCH_THROTTLE | ALREADY_INITIALIZED | ALREADY_EXISTS | NO_GA_ID

text \<open>
  What a \<^verbatim>\<open>throw\<close> or a rejected promise carries. \<open>Error m\<close> is a plain
  \<^verbatim>\<open>Error\<close> (or any value that is not a \<^verbatim>\<open>FirebaseError\<close>);
  \<open>FirebaseError c d\<close> is a \<^verbatim>\<open>FirebaseError\<close> with code \<open>c\<close> whose data
  \<open>d\<close> lists its numeric custom properties by name.
\<close>

datatype thrown =
  Error string
| FirebaseError "AnalyticsError + string" "(string \<times> int) list"

text \<open>
  Modelled from the spec: \<^verbatim>\<open>./errors\<close> (ERROR_FACTORY, AnalyticsError) is not among the
  sources. \<^verbatim>\<open>ERROR_FACTORY.create(code, data)\<close> makes the error of that kind which
  carries the data: for FETCH_THROTTLE, the "fetch throttled" error carrying the requested
  end time.
\<close>

definition ERROR_FACTORY_create :: "AnalyticsError \<Rightarrow> (string \<times> int) list \<Rightarrow> thrown" where
  "ERROR_FACTORY_create c d = FirebaseError (Inl c) d"

definition FETCH_TIMEOUT_MILLIS :: int where
  "FETCH_TIMEOUT_MILLIS = 60 * 1000"

definition DYNAMIC_CONFIG_URL :: string where
  "DYNAMIC_CONFIG_URL = ''https://firebase.googleapis.com/v1alpha/projects/-/apps/{app-id}/webConfig''"

text \<open>A JavaScript string is truthy when it is present and not empty.\<close>

definition truthy :: "string option \<Rightarrow> bool" where
  "truthy v = (case v of None \<Rightarrow> False | Some s \<Rightarrow> s \<noteq> [])"

subsection \<open>\<^verbatim>\<open>String.prototype.replace\<close> with a string pattern\<close>

text \<open>
  \<open>split_first pat s\<close> finds the first occurrence of \<open>pat\<close> in \<open>s\<close> and returns what
  stands before and after it.
\<close>

fun split_first :: "string \<Rightarrow> string \<Rightarrow> (string \<times> string) option" where
  "split_first pat [] = (if pat = [] then Some ([], []) else None)"
| "split_first pat (c # cs) =
     (if take (length pat) (c # cs) = pat then Some ([], drop (length pat) (c # cs))
      else (case split_first pat cs of
              None \<Rightarrow> None
            | Some (b, a) \<Rightarrow> Some (c # b, a)))"

text \<open>
  The replacement text is expanded as ECMAScript's GetSubstitution does when the pattern
  is a string (no capture groups): \<^verbatim>\<open>$$\<close> is a dollar sign, \<^verbatim>\<open>$&\<close> the matched text,
  dollar-backquote the text before the match, dollar-quote the text after it; every other
  character, a dollar sign before a digit included, stands for itself.
\<close>

fun GetSubstitution :: "string \<Rightarrow> string \<Rightarrow> string \<Rightarrow> string \<Rightarrow> string" where
  "GetSubstitution m b a [] = []"
| "GetSubstitution m b a [c] = [c]"
| "GetSubstitution m b a (c # d # r) =
     (if c = CHR ''$'' then
        (if d = CHR ''$'' then CHR ''$'' # GetSubstitution m b a r
         else if d = CHR ''&'' then m @ GetSubstitution m b a r
         else if d = CHR 0x60 then b @ GetSubstitution m b a r
         else if d = CHR 0x27 then a @ GetSubstitution m b a r
         else c # GetSubstitution m b a (d # r))
      else c # GetSubstitution m b a (d # r))"

definition replace :: "string \<Rightarrow> string \<Rightarrow> string \<Rightarrow> string" where
  "replace s pat rep =
     (case split_first pat s of
        None \<Rightarrow> s
      | Some (b, a) \<Rightarrow> b @ GetSubstitution pat b a rep @ a)"

subsection \<open>The fetch and its environment\<close>

record RequestInit =
  request_method :: string
  headers :: "(string \<times> string) list"

definition getHeaders :: "string \<Rightarrow> (string \<times> string) list" where
  "getHeaders k = [(''Accept'', ''application/json''), (''x-goog-api-key'', k)]"

text \<open>
  What the network answers to one \<^verbatim>\<open>fetch\<close>: nothing at all, or the promise rejects,
  or it resolves with a response whose \<^verbatim>\<open>json()\<close> rejects or yields the parsed body.
\<close>

record Response =
  status :: nat
  json :: "thrown + DynamicConfig"

datatype fetch_result = Hangs | NetworkError thrown | Responded Response

text \<open>
  The environment of one attempt: how long the request takes, what the network answers,
  and the random draw that \<^verbatim>\<open>calculateBackoffMillis\<close> makes when it is called.
\<close>

record attempt_env =
  latency :: nat
  answer :: fetch_result
  jitter :: nat

text \<open>
  Effects of a call, in the order they happen: timers armed, the watchdog's
  \<^verbatim>\<open>signal.abort()\<close>, requests sent, and writes to the process-wide map.
\<close>

datatype event =
  WatchdogArmed int
| TimeoutArmed int
| Aborted
| FetchIssued string RequestInit
| Stored string ThrottleMetadata
| Deleted string

record world =
  now :: int
  appThrottleMetadata :: "string \<rightharpoonup> ThrottleMetadata"
  trace :: "event list"

text \<open>
  A promise, as far as its awaiter sees it: it stays pending for ever, or it is
  fulfilled with a value, or it is rejected with what was thrown.
\<close>

datatype 'a settlement = Pending | Fulfilled 'a | RejectedWith thrown

text \<open>
  A promise whose fate is fixed when it is made: how it settles, and when.
\<close>

record 'a promise =
  outcome :: "'a settlement"
  settles_at :: int

text \<open>
  \<^verbatim>\<open>fetchDynamicConfig\<close>: the promise it returns, and the world after the synchronous
  part of the call (the request is on its way). No time passes here; it passes where the
  caller awaits the promise.
\<close>

definition fetchDynamicConfig ::
  "FirebaseApp \<Rightarrow> attempt_env \<Rightarrow> world \<Rightarrow> DynamicConfig promise \<times> world" where
  "fetchDynamicConfig app env s =
     (if \<not> truthy (apiKey (options app)) \<or> \<not> truthy (appId (options app))
      then (\<lparr>outcome = RejectedWith (Error ''no api key''), settles_at = now s\<rparr>, s)
      else
        let request = \<lparr>request_method = ''GET'', headers = getHeaders (the (apiKey (options app)))\<rparr>;
            appUrl = replace DYNAMIC_CONFIG_URL ''{app-id}'' (the (appId (options app)));
            s' = s\<lparr>trace := trace s @ [FetchIssued appUrl request]\<rparr>
        in (\<lparr>outcome =
               (case answer env of
                  Hangs \<Rightarrow> Pending
                | NetworkError e \<Rightarrow> RejectedWith e
                | Responded response \<Rightarrow>
                    (case json response of Inl e \<Rightarrow> RejectedWith e | Inr body \<Rightarrow> Fulfilled body)),
             settles_at = now s + int (latency env)\<rparr>, s'))"

text \<open>
  \<^verbatim>\<open>isRetriableError\<close>. \<^verbatim>\<open>Number(e['httpStatus'])\<close> is the property's number, or NaN
  (equal to no literal) when the error has no such property.
\<close>

definition isRetriableError :: "thrown \<Rightarrow> bool" where
  "isRetriableError e =
     (case e of
        Error m \<Rightarrow> False
      | FirebaseError c d \<Rightarrow>
          (case map_of d ''httpStatus'' of
             None \<Rightarrow> False
           | Some httpStatus \<Rightarrow>
               httpStatus = 429 \<or> httpStatus = 500 \<or> httpStatus = 503 \<or> httpStatus = 504))"

subsection \<open>The abort signal and \<^verbatim>\<open>setAbortableTimeout\<close>\<close>

text \<open>
  One call of \<^verbatim>\<open>setAbortableTimeout\<close> makes a promise, a timer and a listener. The
  listener is the only holder of the timer's handle and of the promise's
  \<^verbatim>\<open>reject\<close>, so the three are kept together: the end time the listener has
  captured, the time at which the timer is due, whether the timer is still armed
  (neither run nor cleared), and the state of the promise.
\<close>

record wait =
  requested_end :: int
  due :: int
  armed :: bool
  settled :: "unit settlement"

text \<open>Resolving or rejecting a promise that is already settled does nothing.\<close>

definition resolve :: "wait \<Rightarrow> wait" where
  "resolve w = (if settled w = Pending then w\<lparr>settled := Fulfilled ()\<rparr> else w)"

definition reject :: "thrown \<Rightarrow> wait \<Rightarrow> wait" where
  "reject e w = (if settled w = Pending then w\<lparr>settled := RejectedWith e\<rparr> else w)"

text \<open>Clearing a timer that has run or was cleared does nothing.\<close>

definition clearTimeout :: "wait \<Rightarrow> wait" where
  "clearTimeout w = (if armed w then w\<lparr>armed := False\<rparr> else w)"

text \<open>The timer's callback is \<^verbatim>\<open>resolve\<close>; it runs once, if the timer is armed.\<close>

definition timeout_fires :: "wait \<Rightarrow> wait" where
  "timeout_fires w = (if armed w then resolve (w\<lparr>armed := False\<rparr>) else w)"

text \<open>The listener that \<^verbatim>\<open>setAbortableTimeout\<close> adds to the signal.\<close>

definition listener :: "wait \<Rightarrow> wait" where
  "listener w =
     reject (ERROR_FACTORY_create FETCH_THROTTLE [(''throttleEndTimeMillis'', requested_end w)])
       (clearTimeout w)"

record AnalyticsAbortSignal =
  listeners :: "wait list"

definition addEventListener :: "AnalyticsAbortSignal \<Rightarrow> wait \<Rightarrow> AnalyticsAbortSignal" where
  "addEventListener signal w = signal\<lparr>listeners := listeners signal @ [w]\<rparr>"

definition abort :: "AnalyticsAbortSignal \<Rightarrow> AnalyticsAbortSignal" where
  "abort signal = signal\<lparr>listeners := map listener (listeners signal)\<rparr>"

text \<open>
  \<^verbatim>\<open>setAbortableTimeout\<close> returns the position of its listener in the signal, which
  stands for the promise, with the signal and the world after the call. The timer is due
  after \<^verbatim>\<open>backoffMillis\<close> milliseconds: this is the function on a clock that takes every
  delay as it is, which the host does for a delay below \<open>2 ^ 31\<close>; the function for
  every delay of the host is \<open>setAbortableTimeout_on_host\<close> below.
\<close>

definition setAbortableTimeout ::
  "AnalyticsAbortSignal \<Rightarrow> int \<Rightarrow> world \<Rightarrow> nat \<times> AnalyticsAbortSignal \<times> world" where
  "setAbortableTimeout signal throttleEndTimeMillis' s =
     (let backoffMillis = max (throttleEndTimeMillis' - now s) 0;
          timeout = \<lparr>requested_end = throttleEndTimeMillis', due = now s + backoffMillis,
                     armed = True, settled = Pending\<rparr>
      in (length (listeners signal), addEventListener signal timeout,
          s\<lparr>trace := trace s @ [TimeoutArmed backoffMillis]\<rparr>))"

subsection \<open>One top-level call and its timers\<close>

text \<open>
  What one call of \<^verbatim>\<open>fetchDynamicConfigWithRetry\<close> owns: its signal, and its watchdog
  timer (the time at which it is due, while it has not run). A timer runs when the clock
  reaches the time at which it is due, never earlier. Two timers due at the same time run
  in the order in which they were armed, and the watchdog is armed before every other timer
  of the call; a timer due when a request settles runs before the code that awaits the
  request. One call is followed on its own: other calls act on the world only between calls.
\<close>

record fetch_call =
  signal :: AnalyticsAbortSignal
  watchdog :: "int option"

text \<open>The watchdog's callback: \<^verbatim>\<open>signal.abort()\<close>.\<close>

definition run_watchdog :: "fetch_call \<Rightarrow> world \<Rightarrow> fetch_call \<times> world" where
  "run_watchdog c s =
     (case watchdog c of
        None \<Rightarrow> (c, s)
      | Some wd \<Rightarrow>
          (c\<lparr>signal := abort (signal c), watchdog := None\<rparr>,
           s\<lparr>now := max (now s) wd, trace := trace s @ [Aborted]\<rparr>))"

text \<open>The timers of the call that are due at \<open>t\<close> or before run.\<close>

definition run_timers_until :: "int \<Rightarrow> fetch_call \<Rightarrow> world \<Rightarrow> fetch_call \<times> world" where
  "run_timers_until t c s =
     (case watchdog c of
        None \<Rightarrow> (c, s)
      | Some wd \<Rightarrow> if wd \<le> t then run_watchdog c s else (c, s))"

text \<open>
  Awaiting a promise whose fate is fixed: time passes until it settles; if it never
  does, the watchdog runs at some point and nothing else happens.
\<close>

definition await :: "'a promise \<Rightarrow> fetch_call \<Rightarrow> world \<Rightarrow> 'a settlement \<times> fetch_call \<times> world" where
  "await p c s =
     (case outcome p of
        Pending \<Rightarrow> (let (c', s') = run_watchdog c s in (Pending, c', s'))
      | r \<Rightarrow> (let (c', s') = run_timers_until (settles_at p) c s
              in (r, c', s'\<lparr>now := max (now s') (settles_at p)\<rparr>)))"

text \<open>
  Awaiting the promise of \<^verbatim>\<open>setAbortableTimeout\<close> whose listener is the \<open>k\<close>-th of
  the signal: the timers due before its own run first; if its timer is still armed after
  that, it runs at its due time. The awaiter goes on as soon as the promise is settled.
\<close>

definition await_timeout ::
  "nat \<Rightarrow> fetch_call \<Rightarrow> world \<Rightarrow> unit settlement \<times> fetch_call \<times> world" where
  "await_timeout k c s =
     (let (c', s') = run_timers_until (due (listeners (signal c) ! k)) c s;
          ws = listeners (signal c');
          w = ws ! k
      in if armed w
         then (settled (timeout_fires w),
               c'\<lparr>signal := (signal c')\<lparr>listeners := ws[k := timeout_fires w]\<rparr>\<rparr>,
               s'\<lparr>now := max (now s') (due w)\<rparr>)
         else (settled w, c', s'))"

subsection \<open>The retry loop\<close>

definition delete_metadata :: "string \<Rightarrow> world \<Rightarrow> world" where
  "delete_metadata a s =
     s\<lparr>appThrottleMetadata := (appThrottleMetadata s)(a := None), trace := trace s @ [Deleted a]\<rparr>"

definition store_metadata :: "string \<Rightarrow> ThrottleMetadata \<Rightarrow> world \<Rightarrow> world" where
  "store_metadata a tm s =
     s\<lparr>appThrottleMetadata := (appThrottleMetadata s)(a \<mapsto> tm), trace := trace s @ [Stored a tm]\<rparr>"

text \<open>\<^verbatim>\<open>await setAbortableTimeout(signal, throttleEndTimeMillis)\<close>\<close>

definition await_setAbortableTimeout ::
  "fetch_call \<Rightarrow> int \<Rightarrow> world \<Rightarrow> unit settlement \<times> fetch_call \<times> world" where
  "await_setAbortableTimeout c throttleEndTimeMillis' s =
     (let (k, signal', s') = setAbortableTimeout (signal c) throttleEndTimeMillis' s
      in await_timeout k (c\<lparr>signal := signal'\<rparr>) s')"

text \<open>\<^verbatim>\<open>await fetchDynamicConfig(app)\<close>\<close>

definition await_fetchDynamicConfig ::
  "FirebaseApp \<Rightarrow> attempt_env \<Rightarrow> fetch_call \<Rightarrow> world \<Rightarrow> DynamicConfig settlement \<times> fetch_call \<times> world" where
  "await_fetchDynamicConfig app env c s =
     (let (p, s') = fetchDynamicConfig app env s in await p c s')"

text \<open>A request that is never answered: what every request is once the script has run out.\<close>

definition unanswered :: attempt_env where
  "unanswered = \<lparr>latency = 0, answer = Hangs, jitter = 0\<rparr>"

text \<open>
  \<^verbatim>\<open>attemptFetchDynamicConfigWithRetry\<close>. \<^verbatim>\<open>calculateBackoffMillis\<close> is imported from
  \<^verbatim>\<open>./exponential_backoff\<close>, which is not among the sources: it is a parameter, a
  function of the backoff count and of a random draw. The list holds the environment of
  each attempt to come. The result is the settlement of the returned promise with the
  call's timers and the world once nothing more can happen.
\<close>

fun attemptFetchDynamicConfigWithRetry ::
  "(int \<Rightarrow> nat \<Rightarrow> int) \<Rightarrow> FirebaseApp \<Rightarrow> ThrottleMetadata \<Rightarrow> fetch_call \<Rightarrow> attempt_env list \<Rightarrow> world
     \<Rightarrow> DynamicConfig settlement \<times> fetch_call \<times> world" where
  "attemptFetchDynamicConfigWithRetry calculateBackoffMillis app tm c [] s =
     (if \<not> truthy (apiKey (options app)) \<or> \<not> truthy (appId (options app))
      then (RejectedWith (Error ''no api key''), c, s)
      else
        (case await_setAbortableTimeout c (throttleEndTimeMillis tm) s of
           (RejectedWith e, c1, s1) \<Rightarrow> (RejectedWith e, c1, s1)
         | (Pending, c1, s1) \<Rightarrow> (Pending, c1, s1)
         | (Fulfilled u, c1, s1) \<Rightarrow>
             (case await_fetchDynamicConfig app unanswered c1 s1 of
                (r, c2, s2) \<Rightarrow> (Pending, c2, s2))))"
| "attemptFetchDynamicConfigWithRetry calculateBackoffMillis app tm c (env # envs) s =
     (if \<not> truthy (apiKey (options app)) \<or> \<not> truthy (appId (options app))
      then (RejectedWith (Error ''no api key''), c, s)
      else
        (case await_setAbortableTimeout c (throttleEndTimeMillis tm) s of
           (RejectedWith e, c1, s1) \<Rightarrow> (RejectedWith e, c1, s1)
         | (Pending, c1, s1) \<Rightarrow> (Pending, c1, s1)
         | (Fulfilled u, c1, s1) \<Rightarrow>
             (case await_fetchDynamicConfig app env c1 s1 of
                (Fulfilled response, c2, s2) \<Rightarrow>
                  (Fulfilled response, c2, delete_metadata (the (appId (options app))) s2)
              | (Pending, c2, s2) \<Rightarrow> (Pending, c2, s2)
              | (RejectedWith e, c2, s2) \<Rightarrow>
                  if \<not> isRetriableError e
                  then (RejectedWith e, c2, delete_metadata (the (appId (options app))) s2)
                  else
                    let throttleMetadata =
                          \<lparr>backoffCount = backoffCount tm + 1,
                           throttleEndTimeMillis =
                             now s2 + calculateBackoffMillis (backoffCount tm) (jitter env)\<rparr>
                    in attemptFetchDynamicConfigWithRetry calculateBackoffMillis app throttleMetadata c2 envs
                         (store_metadata (the (appId (options app))) throttleMetadata s2))))"

text \<open>
  \<^verbatim>\<open>fetchDynamicConfigWithRetry\<close>, the top-level call: it reads the stored metadata or
  takes the default, makes the signal, arms the watchdog and enters the loop. The result is
  that of the loop. The read is that of a property of the object's own: what the read
  yields for every key of a plain object is \<open>read_throttleMetadata\<close> below.
\<close>

definition fetchDynamicConfigWithRetry ::
  "(int \<Rightarrow> nat \<Rightarrow> int) \<Rightarrow> FirebaseApp \<Rightarrow> attempt_env list \<Rightarrow> world
     \<Rightarrow> DynamicConfig settlement \<times> fetch_call \<times> world" where
  "fetchDynamicConfigWithRetry calculateBackoffMillis app envs s =
     (if \<not> truthy (apiKey (options app)) \<or> \<not> truthy (appId (options app))
      then (RejectedWith (Error ''no api key''), \<lparr>signal = \<lparr>listeners = []\<rparr>, watchdog = None\<rparr>, s)
      else
        let throttleMetadata =
              (case appThrottleMetadata s (the (appId (options app))) of
                 Some stored \<Rightarrow> stored
               | None \<Rightarrow> \<lparr>backoffCount = 0, throttleEndTimeMillis = now s\<rparr>);
            c = \<lparr>signal = \<lparr>listeners = []\<rparr>, watchdog = Some (now s + FETCH_TIMEOUT_MILLIS)\<rparr>;
            s' = s\<lparr>trace := trace s @ [WatchdogArmed FETCH_TIMEOUT_MILLIS]\<rparr>
        in attemptFetchDynamicConfigWithRetry calculateBackoffMillis app throttleMetadata c envs s')"

subsection \<open>Reading a run\<close>

text \<open>An app passes the guard of the three functions when both options are truthy.\<close>

definition configured :: "FirebaseApp \<Rightarrow> bool" where
  "configured app = (truthy (apiKey (options app)) \<and> truthy (appId (options app)))"

text \<open>The error that the listener of \<^verbatim>\<open>setAbortableTimeout\<close> rejects with.\<close>

definition throttled :: "int \<Rightarrow> thrown" where
  "throttled e = ERROR_FACTORY_create FETCH_THROTTLE [(''throttleEndTimeMillis'', e)]"

text \<open>How the promise of \<^verbatim>\<open>fetchDynamicConfig\<close> settles for a configured app.\<close>

definition fetch_outcome :: "attempt_env \<Rightarrow> DynamicConfig settlement" where
  "fetch_outcome env =
     (case answer env of
        Hangs \<Rightarrow> Pending
      | NetworkError e \<Rightarrow> RejectedWith e
      | Responded response \<Rightarrow>
          (case json response of Inl e \<Rightarrow> RejectedWith e | Inr body \<Rightarrow> Fulfilled body))"

definition fails_retriably :: "attempt_env \<Rightarrow> bool" where
  "fails_retriably env =
     (case fetch_outcome env of
        RejectedWith e \<Rightarrow> isRetriableError e
      | Pending \<Rightarrow> False
      | Fulfilled body \<Rightarrow> False)"

text \<open>The request that \<^verbatim>\<open>fetchDynamicConfig\<close> sends for a configured app.\<close>

definition request_of :: "FirebaseApp \<Rightarrow> event" where
  "request_of app =
     FetchIssued (replace DYNAMIC_CONFIG_URL ''{app-id}'' (the (appId (options app))))
       \<lparr>request_method = ''GET'', headers = getHeaders (the (apiKey (options app)))\<rparr>"

text \<open>The metadata written to the map, in order, each with its key.\<close>

fun stores :: "event list \<Rightarrow> (string \<times> ThrottleMetadata) list" where
  "stores [] = []"
| "stores (Stored a tm # evs) = (a, tm) # stores evs"
| "stores (ev # evs) = stores evs"

text \<open>The number of requests sent.\<close>

fun fetches :: "event list \<Rightarrow> nat" where
  "fetches [] = 0"
| "fetches (FetchIssued url request # evs) = Suc (fetches evs)"
| "fetches (ev # evs) = fetches evs"

text \<open>The timers armed, by kind.\<close>

fun watchdogs_armed :: "event list \<Rightarrow> int list" where
  "watchdogs_armed [] = []"
| "watchdogs_armed (WatchdogArmed d # evs) = d # watchdogs_armed evs"
| "watchdogs_armed (ev # evs) = watchdogs_armed evs"

fun timeouts_armed :: "event list \<Rightarrow> int list" where
  "timeouts_armed [] = []"
| "timeouts_armed (TimeoutArmed d # evs) = d # timeouts_armed evs"
| "timeouts_armed (ev # evs) = timeouts_armed evs"

text \<open>The map after the writes of a trace.\<close>

fun apply_writes :: "event list \<Rightarrow> (string \<rightharpoonup> ThrottleMetadata) \<Rightarrow> (string \<rightharpoonup> ThrottleMetadata)" where
  "apply_writes [] m = m"
| "apply_writes (Stored a tm # evs) m = apply_writes evs (m(a \<mapsto> tm))"
| "apply_writes (Deleted a # evs) m = apply_writes evs (m(a := None))"
| "apply_writes (ev # evs) m = apply_writes evs m"

text \<open>
  What the events of a run of the retry loop satisfy, given the app, the metadata the loop
  starts with, the script, and the map before and after.
\<close>

definition run_ok ::
  "FirebaseApp \<Rightarrow> ThrottleMetadata \<Rightarrow> attempt_env list \<Rightarrow> (string \<rightharpoonup> ThrottleMetadata) \<Rightarrow> (string \<rightharpoonup> ThrottleMetadata) \<Rightarrow> event list \<Rightarrow> bool" where
  "run_ok app tm envs m m' evs =
     (m' = apply_writes evs m
      \<and> watchdogs_armed evs = []
      \<and> length (stores evs) = length (takeWhile fails_retriably (take (fetches evs) envs))
      \<and> map fst (stores evs) = replicate (length (stores evs)) (the (appId (options app)))
      \<and> map (backoffCount \<circ> snd) (stores evs)
          = map (\<lambda>k. backoffCount tm + int k) [1..<Suc (length (stores evs))]
      \<and> sorted (map (throttleEndTimeMillis \<circ> snd) (stores evs))
      \<and> list_all (\<lambda>p. throttleEndTimeMillis tm \<le> throttleEndTimeMillis (snd p)) (stores evs))"

section \<open>The host\<close>

text \<open>
  The world above keeps two things simpler than the host has them. Its timers run after
  the very delay they were armed with, and its map holds the properties that the object
  \<^verbatim>\<open>appThrottleMetadata\<close> has of its own, as \<^verbatim>\<open>Stored\<close> and \<^verbatim>\<open>Deleted\<close> leave them.
  This section has the host's side of both: the delay that \<^verbatim>\<open>setTimeout\<close> makes of the
  number it is given, and the reads, writes and deletions of a plain object with its
  prototype. The two agree for a delay below \<open>2 ^ 31\<close> milliseconds and for a key that
  is not the name of a member of \<^verbatim>\<open>Object.prototype\<close>.
\<close>

subsection \<open>The host's timer\<close>

text \<open>
  \<^verbatim>\<open>setTimeout\<close> takes its delay as a signed 32-bit integer: the number is reduced modulo
  \<open>2 ^ 32\<close> into the range from \<open>- 2 ^ 31\<close> to \<open>2 ^ 31 - 1\<close>, and a negative delay counts
  as 0.
\<close>

definition ToInt32 :: "int \<Rightarrow> int" where
  "ToInt32 n = (n + 2147483648) mod 4294967296 - 2147483648"

definition setTimeout_delay :: "int \<Rightarrow> int" where
  "setTimeout_delay timeout = (if ToInt32 timeout < 0 then 0 else ToInt32 timeout)"

text \<open>
  \<^verbatim>\<open>setAbortableTimeout\<close> as the host runs it, for every end time: the timer is due after
  the delay that the host makes of \<^verbatim>\<open>backoffMillis\<close>.
\<close>

definition setAbortableTimeout_on_host ::
  "AnalyticsAbortSignal \<Rightarrow> int \<Rightarrow> world \<Rightarrow> nat \<times> AnalyticsAbortSignal \<times> world" where
  "setAbortableTimeout_on_host abortSignal throttleEndTimeMillis' s =
     (let backoffMillis = max (throttleEndTimeMillis' - now s) 0;
          timeout = \<lparr>requested_end = throttleEndTimeMillis',
                     due = now s + setTimeout_delay backoffMillis,
                     armed = True, settled = Pending\<rparr>
      in (length (listeners abortSignal), addEventListener abortSignal timeout,
          s\<lparr>trace := trace s @ [TimeoutArmed backoffMillis]\<rparr>))"

definition await_setAbortableTimeout_on_host ::
  "fetch_call \<Rightarrow> int \<Rightarrow> world \<Rightarrow> unit settlement \<times> fetch_call \<times> world" where
  "await_setAbortableTimeout_on_host c throttleEndTimeMillis' s =
     (let (k, signal', s') = setAbortableTimeout_on_host (signal c) throttleEndTimeMillis' s
      in await_timeout k (c\<lparr>signal := signal'\<rparr>) s')"

subsection \<open>The map as the plain object it is\<close>

text \<open>
  \<^verbatim>\<open>appThrottleMetadata\<close> is a plain object: besides the properties of its own it has
  those it inherits from its prototype. The prototype is \<^verbatim>\<open>Object.prototype\<close>, until an
  assignment to the key \<^verbatim>\<open>__proto__\<close> makes the assigned metadata object the prototype
  (whose own prototype is \<^verbatim>\<open>Object.prototype\<close>).
\<close>

record plain_object =
  own_properties :: "string \<rightharpoonup> ThrottleMetadata"
  prototype_metadata :: "ThrottleMetadata option"

definition empty_object :: plain_object where
  "empty_object = \<lparr>own_properties = Map.empty, prototype_metadata = None\<rparr>"

text \<open>The names of the data properties of \<^verbatim>\<open>Object.prototype\<close>: all of them hold functions.\<close>

definition Object_prototype_members :: "string list" where
  "Object_prototype_members =
     [''constructor'', ''__defineGetter__'', ''__defineSetter__'', ''hasOwnProperty'',
      ''__lookupGetter__'', ''__lookupSetter__'', ''isPrototypeOf'', ''propertyIsEnumerable'',
      ''toString'', ''valueOf'', ''toLocaleString'']"

text \<open>
  What a read of a property yields: \<^verbatim>\<open>undefined\<close>, a metadata object, a number (a field of
  the metadata object that is the prototype), or a member of \<^verbatim>\<open>Object.prototype\<close> (one of
  its functions, or \<^verbatim>\<open>Object.prototype\<close> itself under the key \<^verbatim>\<open>__proto__\<close>).
\<close>

datatype property = Undefined | Metadata ThrottleMetadata | Number int | Inherited

text \<open>\<^verbatim>\<open>object[key]\<close>\<close>

definition get_property :: "plain_object \<Rightarrow> string \<Rightarrow> property" where
  "get_property object key =
     (case own_properties object key of
        Some tm \<Rightarrow> Metadata tm
      | None \<Rightarrow>
          if key = ''__proto__''
          then (case prototype_metadata object of Some tm \<Rightarrow> Metadata tm | None \<Rightarrow> Inherited)
          else if prototype_metadata object \<noteq> None \<and> key = ''backoffCount''
          then Number (backoffCount (the (prototype_metadata object)))
          else if prototype_metadata object \<noteq> None \<and> key = ''throttleEndTimeMillis''
          then Number (throttleEndTimeMillis (the (prototype_metadata object)))
          else if key \<in> set Object_prototype_members then Inherited
          else Undefined)"

text \<open>
  \<^verbatim>\<open>object[key] = tm\<close>: a property of its own is written, but the key
  \<^verbatim>\<open>__proto__\<close> is an accessor of \<^verbatim>\<open>Object.prototype\<close> whose setter makes the
  assigned object the prototype and adds no property.
\<close>

definition set_property :: "plain_object \<Rightarrow> string \<Rightarrow> ThrottleMetadata \<Rightarrow> plain_object" where
  "set_property object key tm =
     (if key = ''__proto__''
      then object\<lparr>prototype_metadata := Some tm\<rparr>
      else object\<lparr>own_properties := (own_properties object)(key \<mapsto> tm)\<rparr>)"

text \<open>\<^verbatim>\<open>delete object[key]\<close> removes a property of its own, and nothing else.\<close>

definition delete_property :: "plain_object \<Rightarrow> string \<Rightarrow> plain_object" where
  "delete_property object key = object\<lparr>own_properties := (own_properties object)(key := None)\<rparr>"

text \<open>A number is truthy unless it is 0; objects and functions are.\<close>

definition truthy_property :: "property \<Rightarrow> bool" where
  "truthy_property v =
     (case v of Undefined \<Rightarrow> False | Metadata tm \<Rightarrow> True | Number n \<Rightarrow> n \<noteq> 0 | Inherited \<Rightarrow> True)"

text \<open>
  Lines 80 to 85 of get-config.ts, at time \<open>t\<close>:
  \<^verbatim>\<open>appThrottleMetadata[app.options.appId] || { backoffCount: 0, throttleEndTimeMillis: Date.now() }\<close>
\<close>

definition read_throttleMetadata :: "plain_object \<Rightarrow> string \<Rightarrow> int \<Rightarrow> property" where
  "read_throttleMetadata object key t =
     (if truthy_property (get_property object key) then get_property object key
      else Metadata \<lparr>backoffCount = 0, throttleEndTimeMillis = t\<rparr>)"

text \<open>
  The field \<^verbatim>\<open>backoffCount\<close> that the loop destructures from what it is handed:
  \<^verbatim>\<open>undefined\<close> unless it is a metadata object.
\<close>

definition destructured_backoffCount :: "property \<Rightarrow> int option" where
  "destructured_backoffCount v = (case v of Metadata tm \<Rightarrow> Some (backoffCount tm) | other \<Rightarrow> None)"

definition destructured_throttleEndTimeMillis :: "property \<Rightarrow> int option" where
  "destructured_throttleEndTimeMillis v =
     (case v of Metadata tm \<Rightarrow> Some (throttleEndTimeMillis tm) | other \<Rightarrow> None)"

text \<open>The writes of a run, done to the plain object.\<close>

fun write_through :: "event list \<Rightarrow> plain_object \<Rightarrow> plain_object" where
  "write_through [] object = object"
| "write_through (Stored a tm # evs) object = write_through evs (set_property object a tm)"
| "write_through (Deleted a # evs) object = write_through evs (delete_property object a)"
| "write_through (ev # evs) object = write_through evs object"

section \<open>Analytics: identity initialization and event logging\<close>

text \<open>The JavaScript values that reach the gtag function.\<close>

datatype js =
  JUndefined
| JString string
| JBool bool
| JDate int
| JObject "(string \<times> js) list"

definition js_of :: "string option \<Rightarrow> js" where
  "js_of v = (case v of None \<Rightarrow> JUndefined | Some x \<Rightarrow> JString x)"

text \<open>A value used as a property key: \<^verbatim>\<open>undefined\<close> becomes the key "undefined".\<close>

definition property_key :: "string option \<Rightarrow> string" where
  "property_key v = (case v of None \<Rightarrow> ''undefined'' | Some x \<Rightarrow> x)"

text \<open>
  Modelled from the spec: \<^verbatim>\<open>./constants\<close> (GtagCommand, GA_FID_KEY, ORIGIN_KEY) is not
  among the sources. The values are those of the spec's end-to-end scenario and of the
  object that initialize-ids.test.ts expects.
\<close>

definition GtagCommand_EVENT :: string where
  "GtagCommand_EVENT = ''event''"

definition GtagCommand_CONFIG :: string where
  "GtagCommand_CONFIG = ''config''"

definition GA_FID_KEY :: string where
  "GA_FID_KEY = ''firebase_id''"

definition ORIGIN_KEY :: string where
  "ORIGIN_KEY = ''origin''"

text \<open>
  The state that the analytics functions act on: the calls that the gtag function has
  received (each with its arguments), what \<^verbatim>\<open>logger.error\<close> has logged, and the two
  module-level collections that \<^verbatim>\<open>initializeGAId\<close> is handed.
\<close>

record analytics =
  gtag_calls :: "js list list"
  logged :: "thrown list"
  measurementIdToAppId :: "string \<rightharpoonup> string option"
  dynamicConfigPromisesList :: "DynamicConfig promise list"

definition gtag :: "js list \<Rightarrow> analytics \<Rightarrow> analytics" where
  "gtag args g = g\<lparr>gtag_calls := gtag_calls g @ [args]\<rparr>"

definition logger_error :: "thrown \<Rightarrow> analytics \<Rightarrow> analytics" where
  "logger_error e g = g\<lparr>logged := logged g @ [e]\<rparr>"

text \<open>\<^verbatim>\<open>installations.getId()\<close>: how its promise settles, and how long that takes.\<close>

record FirebaseInstallations =
  getId_result :: "string settlement"
  getId_latency :: nat

text \<open>
  \<^verbatim>\<open>Promise.all\<close> of two promises: fulfilled when both are, rejected with the first
  rejection.
\<close>

definition Promise_all :: "'a promise \<Rightarrow> 'b promise \<Rightarrow> ('a \<times> 'b) promise" where
  "Promise_all p q =
     (case (outcome p, outcome q) of
        (Fulfilled a, Fulfilled b) \<Rightarrow>
          \<lparr>outcome = Fulfilled (a, b), settles_at = max (settles_at p) (settles_at q)\<rparr>
      | (RejectedWith e, RejectedWith f) \<Rightarrow>
          (if settles_at q < settles_at p
           then \<lparr>outcome = RejectedWith f, settles_at = settles_at q\<rparr>
           else \<lparr>outcome = RejectedWith e, settles_at = settles_at p\<rparr>)
      | (RejectedWith e, other) \<Rightarrow> \<lparr>outcome = RejectedWith e, settles_at = settles_at p\<rparr>
      | (other, RejectedWith f) \<Rightarrow> \<lparr>outcome = RejectedWith f, settles_at = settles_at q\<rparr>
      | (other, other') \<Rightarrow> \<lparr>outcome = Pending, settles_at = max (settles_at p) (settles_at q)\<rparr>)"

text \<open>
  \<^verbatim>\<open>initializeGAId\<close>: the settlement of the returned promise, with the world and the
  analytics state at the time it settles. The promise of the request is pushed to the list
  during the call; the reaction registered on it (the entry in \<^verbatim>\<open>measurementIdToAppId\<close>,
  or the logged error) runs when that promise settles, which is before the returned promise
  settles unless \<^verbatim>\<open>getId\<close> is rejected earlier. For a returned promise that stays
  pending, the state is the one after the reaction.
\<close>

definition initializeGAId ::
  "FirebaseApp \<Rightarrow> attempt_env \<Rightarrow> FirebaseInstallations \<Rightarrow> world \<Rightarrow> analytics
     \<Rightarrow> string option settlement \<times> world \<times> analytics" where
  "initializeGAId app env installations s g =
     (let (dynamicConfigPromise, s1) = fetchDynamicConfig app env s;
          pushed = g\<lparr>dynamicConfigPromisesList := dynamicConfigPromisesList g @ [dynamicConfigPromise]\<rparr>;
          reacted = (case outcome dynamicConfigPromise of
                       Fulfilled config \<Rightarrow>
                         pushed\<lparr>measurementIdToAppId :=
                             (measurementIdToAppId pushed)
                               (property_key (measurementId config) \<mapsto> config_appId config)\<rparr>
                     | RejectedWith e \<Rightarrow> logger_error e pushed
                     | Pending \<Rightarrow> pushed);
          both = Promise_all dynamicConfigPromise
                   \<lparr>outcome = getId_result installations,
                    settles_at = now s + int (getId_latency installations)\<rparr>
      in (case outcome both of
            Pending \<Rightarrow> (Pending, s1, reacted)
          | RejectedWith e \<Rightarrow>
              (RejectedWith e, s1\<lparr>now := max (now s1) (settles_at both)\<rparr>,
               if settles_at dynamicConfigPromise \<le> settles_at both then reacted else pushed)
          | Fulfilled (dynamicConfig, fid) \<Rightarrow>
              let s2 = s1\<lparr>now := max (now s1) (settles_at both)\<rparr>;
                  g3 = gtag [JString ''js'', JDate (now s2)] reacted;
                  g4 = gtag [JString GtagCommand_CONFIG, js_of (measurementId dynamicConfig),
                             JObject [(GA_FID_KEY, JString fid),
                                      (ORIGIN_KEY, JString ''firebase''),
                                      (''update'', JBool True)]] g3
              in (Fulfilled (measurementId dynamicConfig), s2, g4)))"

text \<open>The values of initialize-ids.test.ts.\<close>

definition mockAnalyticsId :: string where
  "mockAnalyticsId = ''abcd-efgh-ijkl''"

definition mockFid :: string where
  "mockFid = ''fid-1234-zyxw''"

definition fakeAppParams :: FirebaseApp where
  "fakeAppParams = \<lparr>options = \<lparr>apiKey = Some ''AAbbCCdd12345'', appId = Some ''abcdefgh12345:23405''\<rparr>\<rparr>"

definition mockResponse :: Response where
  "mockResponse = \<lparr>status = 200, json = Inr \<lparr>measurementId = Some mockAnalyticsId, config_appId = None\<rparr>\<rparr>"

subsection \<open>\<^verbatim>\<open>logEvent\<close> (functions.ts)\<close>

record AnalyticsCallOptions =
  global :: bool

text \<open>
  \<^verbatim>\<open>logEvent\<close>, given how far the promise has come: the analytics state after the call
  and after the callbacks it has registered, if the promise is settled.
\<close>

definition logEvent ::
  "DynamicConfig settlement \<Rightarrow> string \<Rightarrow> (string \<times> js) list option \<Rightarrow> AnalyticsCallOptions option
     \<Rightarrow> analytics \<Rightarrow> analytics" where
  "logEvent dynamicConfigPromise eventName eventParams options' g =
     (if (case options' of None \<Rightarrow> False | Some opts \<Rightarrow> global opts)
      then gtag [JString GtagCommand_EVENT, JString eventName,
                 JObject (case eventParams of None \<Rightarrow> [] | Some ps \<Rightarrow> ps)] g
      else
        (case dynamicConfigPromise of
           Pending \<Rightarrow> g
         | Fulfilled config \<Rightarrow>
             (let params = AList.update ''send_to'' (js_of (measurementId config))
                             (case eventParams of None \<Rightarrow> [] | Some ps \<Rightarrow> ps)
              in gtag [JString GtagCommand_EVENT, JString eventName, JObject params] g)
         | RejectedWith e \<Rightarrow> logger_error e g))"

section \<open>Firestore lite: \<^verbatim>\<open>CollectionReference.doc\<close>\<close>

datatype Code = INVALID_ARGUMENT | Code string

datatype FirestoreError = FirestoreError Code string

datatype 'p DocumentKey = DocumentKey 'p

datatype ('p, 'f) DocumentReference = DocumentReference "'p DocumentKey" 'f

datatype ('p, 'f) CollectionReference = CollectionReference 'p 'f

text \<open>
  \<^verbatim>\<open>ResourcePath\<close> and \<^verbatim>\<open>AutoId\<close> are not among the sources:
  \<^verbatim>\<open>ResourcePath.fromString\<close> (which may throw), \<^verbatim>\<open>child\<close> and the identifier
  that \<^verbatim>\<open>AutoId.newId()\<close> draws are parameters.
\<close>

fun doc ::
  "(string \<Rightarrow> FirestoreError + 'p) \<Rightarrow> ('p \<Rightarrow> 'p \<Rightarrow> 'p) \<Rightarrow> string \<Rightarrow> ('p, 'f) CollectionReference
     \<Rightarrow> string option \<Rightarrow> FirestoreError + ('p, 'f) DocumentReference" where
  "doc fromString child newId (CollectionReference path firestore) pathString =
     (if pathString = Some []
      then Inl (FirestoreError INVALID_ARGUMENT ''Document path must be a non-empty string'')
      else
        (case fromString (if truthy pathString then the pathString else newId) of
           Inl e \<Rightarrow> Inl e
         | Inr p \<Rightarrow> Inr (DocumentReference (DocumentKey (child path p)) firestore)))"

section \<open>Example inputs\<close>

definition example_world :: world where
  "example_world = \<lparr>now = 1000, appThrottleMetadata = Map.empty, trace = []\<rparr>"

text \<open>A call whose watchdog was armed at time 1000.\<close>

definition example_call :: fetch_call where
  "example_call = \<lparr>signal = \<lparr>listeners = []\<rparr>, watchdog = Some 61000\<rparr>"

text \<open>A backoff that doubles with every failure, plus the random draw.\<close>

definition doubling :: "int \<Rightarrow> nat \<Rightarrow> int" where
  "doubling n j = 1000 * 2 ^ nat n + int j"

text \<open>A request that fails after 20 ms with a \<^verbatim>\<open>FirebaseError\<close> of the given status.\<close>

definition fails_with :: "int \<Rightarrow> attempt_env" where
  "fails_with httpStatus =
     \<lparr>latency = 20,
      answer = NetworkError (FirebaseError (Inr ''fetch-failed'') [(''httpStatus'', httpStatus)]),
      jitter = 7\<rparr>"

text \<open>A request answered after 20 ms with the test's response.\<close>

definition succeeds :: attempt_env where
  "succeeds = \<lparr>latency = 20, answer = Responded mockResponse, jitter = 7\<rparr>"

text \<open>A path parser for the examples: the whole string is one segment.\<close>

definition single_segment :: "string \<Rightarrow> FirestoreError + string list" where
  "single_segment p = Inr [p]"

section \<open>The abortable timeout\<close>

lemma await_setAbortableTimeout_elapses:
  assumes "watchdog c = None \<or> (\<exists>wd. watchdog c = Some wd \<and> now s + max (e - now s) 0 < wd)"
  shows "await_setAbortableTimeout c e s =
     (Fulfilled (),
      c\<lparr>signal := (signal c)\<lparr>listeners := listeners (signal c) @
          [\<lparr>requested_end = e, due = now s + max (e - now s) 0, armed = False, settled = Fulfilled ()\<rparr>]\<rparr>\<rparr>,
      s\<lparr>now := now s + max (e - now s) 0, trace := trace s @ [TimeoutArmed (max (e - now s) 0)]\<rparr>)"
  using assms
  by (auto simp: await_setAbortableTimeout_def setAbortableTimeout_def await_timeout_def
      run_timers_until_def addEventListener_def Let_def timeout_fires_def resolve_def max_def)

lemma await_setAbortableTimeout_aborted:
  assumes "watchdog c = Some wd" "wd \<le> now s + max (e - now s) 0"
  shows "await_setAbortableTimeout c e s =
     (RejectedWith (throttled e),
      c\<lparr>signal := (signal c)\<lparr>listeners := map listener (listeners (signal c)) @
          [\<lparr>requested_end = e, due = now s + max (e - now s) 0, armed = False,
            settled = RejectedWith (throttled e)\<rparr>]\<rparr>,
        watchdog := None\<rparr>,
      s\<lparr>now := max (now s) wd, trace := trace s @ [TimeoutArmed (max (e - now s) 0), Aborted]\<rparr>)"
  using assms
  by (auto simp: await_setAbortableTimeout_def setAbortableTimeout_def await_timeout_def
      run_timers_until_def run_watchdog_def abort_def listener_def reject_def clearTimeout_def
      throttled_def addEventListener_def Let_def timeout_fires_def resolve_def max_def nth_append)

lemma listener_after_timeout:
  "armed w \<Longrightarrow> settled w = Pending \<Longrightarrow> listener (timeout_fires w) = timeout_fires w"
  by (simp add: listener_def timeout_fires_def resolve_def reject_def clearTimeout_def)

lemma timeout_after_listener: "timeout_fires (listener w) = listener w"
  by (simp add: listener_def timeout_fires_def resolve_def reject_def clearTimeout_def)

text \<open>
  On a clock that takes every delay as it is,
  \<^verbatim>\<open>setAbortableTimeout(signal, throttleEndTimeMillis)\<close>, called at time \<open>now s\<close>,
  arms a timer that is due \<open>max (e - now s) 0\<close> milliseconds later and adds a listener to
  the signal. If no abort comes first (no watchdog is pending, or it is due later), the
  awaiter goes on at that time with the promise fulfilled. If the signal is aborted while
  the timer is pending, the awaiter goes on at the time of the abort, the timer is no longer
  armed (and does nothing when its time comes), and the promise is rejected with the
  fetch-throttle error that carries the requested end time \<open>e\<close>. Once the timer has run,
  the listener changes nothing: the timer stays spent and the promise stays fulfilled.
\<close>

lemma setAbortableTimeout_contract:
  fixes c :: fetch_call and e :: int and s :: world
  shows
  "(let d = now s + max (e - now s) 0;
        w = \<lparr>requested_end = e, due = d, armed = True, settled = Pending\<rparr>;
        s' = s\<lparr>trace := trace s @ [TimeoutArmed (max (e - now s) 0)]\<rparr>
    in setAbortableTimeout (signal c) e s
         = (length (listeners (signal c)), (signal c)\<lparr>listeners := listeners (signal c) @ [w]\<rparr>, s')
     \<and> (watchdog c = None \<or> (\<exists>wd. watchdog c = Some wd \<and> d < wd) \<longrightarrow>
          await_setAbortableTimeout c e s
            = (Fulfilled (),
               c\<lparr>signal := (signal c)\<lparr>listeners := listeners (signal c) @ [timeout_fires w]\<rparr>\<rparr>,
               s'\<lparr>now := d\<rparr>))
     \<and> (\<forall>wd. watchdog c = Some wd \<and> now s \<le> wd \<and> wd < d \<longrightarrow>
          await_setAbortableTimeout c e s
            = (RejectedWith (throttled e),
               c\<lparr>signal := (signal c)\<lparr>listeners := map listener (listeners (signal c)) @ [listener w]\<rparr>,
                 watchdog := None\<rparr>,
               s'\<lparr>now := wd, trace := trace s' @ [Aborted]\<rparr>))
     \<and> listener w = w\<lparr>armed := False, settled := RejectedWith (throttled e)\<rparr>
     \<and> timeout_fires (listener w) = listener w
     \<and> timeout_fires w = w\<lparr>armed := False, settled := Fulfilled ()\<rparr>
     \<and> listener (timeout_fires w) = timeout_fires w)"
  apply (simp only: Let_def)
  apply (intro conjI impI allI)
  subgoal by (simp add: setAbortableTimeout_def addEventListener_def Let_def)
  subgoal by (simp add: await_setAbortableTimeout_elapses timeout_fires_def resolve_def)
  subgoal for wd
    by (simp add: await_setAbortableTimeout_aborted [where wd = wd] listener_def reject_def
        clearTimeout_def throttled_def max_def)
  subgoal by (simp add: listener_def reject_def clearTimeout_def throttled_def)
  subgoal by (rule timeout_after_listener)
  subgoal by (simp add: timeout_fires_def resolve_def)
  subgoal by (simp add: listener_after_timeout)
  done

text \<open>
  The contract at time 1000 with the watchdog due at 61000: a wait until 3000 elapses,
  a wait until 70000 is cut at 61000.
\<close>

lemma setAbortableTimeout_contract_example:
  "await_setAbortableTimeout example_call 3000 example_world
     = (Fulfilled (),
        \<lparr>signal = \<lparr>listeners = [\<lparr>requested_end = 3000, due = 3000, armed = False, settled = Fulfilled ()\<rparr>]\<rparr>,
         watchdog = Some 61000\<rparr>,
        \<lparr>now = 3000, appThrottleMetadata = Map.empty, trace = [TimeoutArmed 2000]\<rparr>)
   \<and> await_setAbortableTimeout example_call 70000 example_world
     = (RejectedWith (FirebaseError (Inl FETCH_THROTTLE) [(''throttleEndTimeMillis'', 70000)]),
        \<lparr>signal = \<lparr>listeners = [\<lparr>requested_end = 70000, due = 70000, armed = False,
             settled = RejectedWith (FirebaseError (Inl FETCH_THROTTLE) [(''throttleEndTimeMillis'', 70000)])\<rparr>]\<rparr>,
         watchdog = None\<rparr>,
        \<lparr>now = 61000, appThrottleMetadata = Map.empty, trace = [TimeoutArmed 69000, Aborted]\<rparr>)"
  using setAbortableTimeout_contract [where c = example_call and e = 3000 and s = example_world]
    setAbortableTimeout_contract [where c = example_call and e = 70000 and s = example_world]
  by (simp add: Let_def example_call_def example_world_def timeout_fires_def resolve_def
      listener_def reject_def clearTimeout_def throttled_def ERROR_FACTORY_create_def)

subsection \<open>On the host\<close>

text \<open>
  For an end time less than \<open>2 ^ 31\<close> milliseconds ahead the host's timer is the one
  above, and the contract is that of \<^verbatim>\<open>setAbortableTimeout\<close> on the host.
\<close>

lemma within_host_range:
  assumes "max (e - now s) 0 < 2147483648"
  shows "setAbortableTimeout_on_host sig e s = setAbortableTimeout sig e s"
    and "await_setAbortableTimeout_on_host c e s = await_setAbortableTimeout c e s"
proof -
  have "setTimeout_delay (max (e - now s) 0) = max (e - now s) 0"
    using assms by (simp add: setTimeout_delay_def ToInt32_def)
  then show a: "\<And>sig. setAbortableTimeout_on_host sig e s = setAbortableTimeout sig e s"
    by (simp add: setAbortableTimeout_on_host_def setAbortableTimeout_def Let_def)
  show "await_setAbortableTimeout_on_host c e s = await_setAbortableTimeout c e s"
    by (simp add: await_setAbortableTimeout_on_host_def await_setAbortableTimeout_def a)
qed

text \<open>
  C5. \<^verbatim>\<open>setAbortableTimeout\<close> does not wait \<open>max (throttleEndTimeMillis - now) 0\<close>
  milliseconds for every end time. Called at time 1000 with the end time \<open>2 ^ 31\<close>
  milliseconds ahead, on a signal whose watchdog is due at 61000, it hands
  \<^verbatim>\<open>setTimeout\<close> the delay 2147483648, which the host reads as a signed 32-bit integer:
  a negative number, taken as 0. The timer is due at once and the promise is fulfilled at
  time 1000, with no abort and the watchdog still pending. With the delay taken as it is,
  the watchdog would come first, at 61000, and the promise would be rejected with the
  fetch-throttle error that carries the end time.
\<close>

theorem long_wait_resolves_at_once:
  "await_setAbortableTimeout_on_host example_call (1000 + 2147483648) example_world
     = (Fulfilled (),
        \<lparr>signal = \<lparr>listeners = [\<lparr>requested_end = 2147484648, due = 1000, armed = False,
                                  settled = Fulfilled ()\<rparr>]\<rparr>,
         watchdog = Some 61000\<rparr>,
        \<lparr>now = 1000, appThrottleMetadata = Map.empty, trace = [TimeoutArmed 2147483648]\<rparr>)
   \<and> fst (await_setAbortableTimeout example_call (1000 + 2147483648) example_world)
     = RejectedWith (FirebaseError (Inl FETCH_THROTTLE) [(''throttleEndTimeMillis'', 2147484648)])
   \<and> now (snd (snd (await_setAbortableTimeout example_call (1000 + 2147483648) example_world)))
     = 61000"
  by (simp add: await_setAbortableTimeout_on_host_def setAbortableTimeout_on_host_def
      setTimeout_delay_def ToInt32_def await_setAbortableTimeout_def setAbortableTimeout_def
      await_timeout_def run_timers_until_def run_watchdog_def abort_def listener_def reject_def
      clearTimeout_def ERROR_FACTORY_create_def addEventListener_def timeout_fires_def
      resolve_def example_call_def example_world_def Let_def)

section \<open>The retry loop, case by case\<close>


lemma run_timers_until_frame:
  assumes "run_timers_until t c s = (c', s')"
  shows "appThrottleMetadata s' = appThrottleMetadata s"
    and "now s \<le> now s'" and "now s' \<le> max (now s) t"
    and "trace s' = trace s \<or> trace s' = trace s @ [Aborted]"
  using assms
  by (auto simp: run_timers_until_def run_watchdog_def split: option.splits if_splits)

lemma await_fetchDynamicConfig_settles:
  assumes "configured app" "fetch_outcome env \<noteq> Pending"
      and "await_fetchDynamicConfig app env c s = (r, c', s')"
  shows "r = fetch_outcome env"
    and "appThrottleMetadata s' = appThrottleMetadata s"
    and "now s' = now s + int (latency env)"
    and "trace s' = trace s @ [request_of app] \<or> trace s' = trace s @ [request_of app, Aborted]"
  using assms
  by (auto simp: await_fetchDynamicConfig_def fetchDynamicConfig_def configured_def await_def Let_def
      fetch_outcome_def request_of_def run_timers_until_def run_watchdog_def
      split: fetch_result.splits sum.splits option.splits if_splits)

lemma await_fetchDynamicConfig_hangs:
  assumes "configured app" "fetch_outcome env = Pending"
      and "await_fetchDynamicConfig app env c s = (r, c', s')"
  shows "r = Pending"
    and "appThrottleMetadata s' = appThrottleMetadata s"
    and "now s \<le> now s'"
    and "trace s' = trace s @ [request_of app] \<or> trace s' = trace s @ [request_of app, Aborted]"
  using assms
  by (auto simp: await_fetchDynamicConfig_def fetchDynamicConfig_def configured_def await_def Let_def
      fetch_outcome_def request_of_def run_timers_until_def run_watchdog_def
      split: fetch_result.splits sum.splits option.splits if_splits)

lemma await_setAbortableTimeout_cases:
  assumes "await_setAbortableTimeout c e s = (r, c', s')"
  obtains (elapsed) "r = Fulfilled ()" "e \<le> now s'" "now s \<le> now s'"
        "appThrottleMetadata s' = appThrottleMetadata s"
        "trace s' = trace s @ [TimeoutArmed (max (e - now s) 0)]"
        "watchdog c' = watchdog c"
    | (cut) "r = RejectedWith (throttled e)" "now s \<le> now s'"
        "appThrottleMetadata s' = appThrottleMetadata s"
        "trace s' = trace s @ [TimeoutArmed (max (e - now s) 0), Aborted]"
        "watchdog c' = None"
proof (cases "watchdog c")
  case None
  from assms await_setAbortableTimeout_elapses [of c s e] None
  show ?thesis by (intro elapsed) auto
next
  case (Some wd)
  show ?thesis
  proof (cases "wd \<le> now s + max (e - now s) 0")
    case True
    from assms await_setAbortableTimeout_aborted [OF Some True]
    show ?thesis by (intro cut) auto
  next
    case False
    with Some assms await_setAbortableTimeout_elapses [of c s e]
    show ?thesis by (intro elapsed) auto
  qed
qed

lemma attempt_cases:
  assumes run: "attemptFetchDynamicConfigWithRetry cbm app tm c envs s = (r, c', s')"
  obtains
    (unconfigured) "\<not> configured app" "r = RejectedWith (Error ''no api key'')" "c' = c" "s' = s"
  | (cut) "configured app"
      "await_setAbortableTimeout c (throttleEndTimeMillis tm) s = (RejectedWith (throttled (throttleEndTimeMillis tm)), c', s')"
      "r = RejectedWith (throttled (throttleEndTimeMillis tm))"
  | (hangs) c1 s1 env where "configured app"
      "await_setAbortableTimeout c (throttleEndTimeMillis tm) s = (Fulfilled (), c1, s1)"
      "envs = [] \<and> env = unanswered \<or> (\<exists>envs'. envs = env # envs')"
      "fetch_outcome env = Pending"
      "await_fetchDynamicConfig app env c1 s1 = (Pending, c', s')" "r = Pending"
  | (success) c1 s1 env envs' s2 response where "configured app"
      "await_setAbortableTimeout c (throttleEndTimeMillis tm) s = (Fulfilled (), c1, s1)"
      "envs = env # envs'" "fetch_outcome env = Fulfilled response"
      "await_fetchDynamicConfig app env c1 s1 = (Fulfilled response, c', s2)"
      "s' = delete_metadata (the (appId (options app))) s2" "r = Fulfilled response"
  | (fatal) c1 s1 env envs' s2 e where "configured app"
      "await_setAbortableTimeout c (throttleEndTimeMillis tm) s = (Fulfilled (), c1, s1)"
      "envs = env # envs'" "fetch_outcome env = RejectedWith e" "\<not> isRetriableError e"
      "await_fetchDynamicConfig app env c1 s1 = (RejectedWith e, c', s2)"
      "s' = delete_metadata (the (appId (options app))) s2" "r = RejectedWith e"
  | (retry) c1 s1 env envs' c2 s2 e where "configured app"
      "await_setAbortableTimeout c (throttleEndTimeMillis tm) s = (Fulfilled (), c1, s1)"
      "envs = env # envs'" "fetch_outcome env = RejectedWith e" "isRetriableError e"
      "await_fetchDynamicConfig app env c1 s1 = (RejectedWith e, c2, s2)"
      "attemptFetchDynamicConfigWithRetry cbm app
         \<lparr>backoffCount = backoffCount tm + 1,
          throttleEndTimeMillis = now s2 + cbm (backoffCount tm) (jitter env)\<rparr> c2 envs'
         (store_metadata (the (appId (options app)))
            \<lparr>backoffCount = backoffCount tm + 1,
             throttleEndTimeMillis = now s2 + cbm (backoffCount tm) (jitter env)\<rparr> s2) = (r, c', s')"
proof (cases "configured app")
  case False
  with run have "r = RejectedWith (Error ''no api key'')" "c' = c" "s' = s"
    by (cases envs; simp add: configured_def)+
  with False show ?thesis by (rule unconfigured)
next
  case conf: True
  obtain r1 c1 s1 where w: "await_setAbortableTimeout c (throttleEndTimeMillis tm) s = (r1, c1, s1)"
    by (cases "await_setAbortableTimeout c (throttleEndTimeMillis tm) s") auto
  from w show ?thesis
  proof (cases rule: await_setAbortableTimeout_cases)
    case cut': cut
    with run conf w have "r = RejectedWith (throttled (throttleEndTimeMillis tm))" "c' = c1" "s' = s1"
      by (cases envs; simp add: configured_def)+
    with conf w cut' show ?thesis by (intro cut) auto
  next
    case elapsed
    show ?thesis
    proof (cases envs)
      case Nil
      obtain r2 c2 s2 where f: "await_fetchDynamicConfig app unanswered c1 s1 = (r2, c2, s2)"
        by (cases "await_fetchDynamicConfig app unanswered c1 s1") auto
      have p: "fetch_outcome unanswered = Pending" by (simp add: fetch_outcome_def unanswered_def)
      from await_fetchDynamicConfig_hangs(1) [OF conf p f] have "r2 = Pending" .
      with run conf w elapsed Nil f have "r = Pending" "c' = c2" "s' = s2"
        by (simp_all add: configured_def)
      with conf w elapsed Nil f p \<open>r2 = Pending\<close> show ?thesis
        by (intro hangs [of c1 s1 unanswered]) auto
    next
      case (Cons env envs')
      obtain r2 c2 s2 where f: "await_fetchDynamicConfig app env c1 s1 = (r2, c2, s2)"
        by (cases "await_fetchDynamicConfig app env c1 s1") auto
      show ?thesis
      proof (cases "fetch_outcome env")
        case Pending
        from await_fetchDynamicConfig_hangs(1) [OF conf Pending f] have "r2 = Pending" .
        with run conf w elapsed Cons f have "r = Pending" "c' = c2" "s' = s2"
          by (simp_all add: configured_def)
        with conf w elapsed Cons f Pending \<open>r2 = Pending\<close> show ?thesis
          by (intro hangs [of c1 s1 env]) auto
      next
        case (Fulfilled response)
        then have ne: "fetch_outcome env \<noteq> Pending" by simp
        from await_fetchDynamicConfig_settles(1) [OF conf ne f] Fulfilled have r2: "r2 = Fulfilled response" by simp
        with run conf w elapsed Cons f
        have "r = Fulfilled response" "c' = c2" "s' = delete_metadata (the (appId (options app))) s2"
          by (simp_all add: configured_def)
        with conf w elapsed Cons f Fulfilled r2 show ?thesis
          by (intro success [of c1 s1 env envs' response s2]) auto
      next
        case (RejectedWith e)
        then have ne: "fetch_outcome env \<noteq> Pending" by simp
        from await_fetchDynamicConfig_settles(1) [OF conf ne f] RejectedWith have r2: "r2 = RejectedWith e" by simp
        show ?thesis
        proof (cases "isRetriableError e")
          case False
          with run conf w elapsed Cons f r2
          have "r = RejectedWith e" "c' = c2" "s' = delete_metadata (the (appId (options app))) s2"
            by (simp_all add: configured_def)
          with conf w elapsed Cons f RejectedWith r2 False show ?thesis
            by (intro fatal [of c1 s1 env envs' e s2]) auto
        next
          case True
          with run conf w elapsed Cons f r2
          have "attemptFetchDynamicConfigWithRetry cbm app
         \<lparr>backoffCount = backoffCount tm + 1,
          throttleEndTimeMillis = now s2 + cbm (backoffCount tm) (jitter env)\<rparr> c2 envs'
         (store_metadata (the (appId (options app)))
            \<lparr>backoffCount = backoffCount tm + 1,
             throttleEndTimeMillis = now s2 + cbm (backoffCount tm) (jitter env)\<rparr> s2) = (r, c', s')"
            by (simp add: configured_def Let_def)
          with conf w elapsed Cons f RejectedWith r2 True show ?thesis
            by (intro retry [of c1 s1 env envs' e c2 s2]) auto
        qed
      qed
    qed
  qed
qed

lemma iteration_frame:
  assumes conf: "configured app"
    and w: "await_setAbortableTimeout c e s = (Fulfilled (), c1, s1)"
    and f: "await_fetchDynamicConfig app env c1 s1 = (r2, c2, s2)"
  shows "appThrottleMetadata s2 = appThrottleMetadata s"
    and "e \<le> now s2" and "now s \<le> now s2"
    and "\<exists>ab. trace s2 = trace s @ TimeoutArmed (max (e - now s) 0) # request_of app # ab
           \<and> (ab = [] \<or> ab = [Aborted])"
proof -
  from w have w': "e \<le> now s1" "now s \<le> now s1" "appThrottleMetadata s1 = appThrottleMetadata s"
    "trace s1 = trace s @ [TimeoutArmed (max (e - now s) 0)]"
    by (cases rule: await_setAbortableTimeout_cases; simp add: throttled_def ERROR_FACTORY_create_def)+
  have f': "appThrottleMetadata s2 = appThrottleMetadata s1 \<and> now s1 \<le> now s2
    \<and> (trace s2 = trace s1 @ [request_of app] \<or> trace s2 = trace s1 @ [request_of app, Aborted])"
  proof (cases "fetch_outcome env = Pending")
    case True
    from await_fetchDynamicConfig_hangs(2-4) [OF conf True f] show ?thesis by simp
  next
    case False
    from await_fetchDynamicConfig_settles(2-4) [OF conf False f] show ?thesis by simp
  qed
  from w' f' show "appThrottleMetadata s2 = appThrottleMetadata s" "e \<le> now s2" "now s \<le> now s2"
    by simp_all
  from w' f' show "\<exists>ab. trace s2 = trace s @ TimeoutArmed (max (e - now s) 0) # request_of app # ab
           \<and> (ab = [] \<or> ab = [Aborted])"
    by auto
qed

lemma attempt_induct [consumes 1, case_names unconfigured cut hangs success fatal retry]:
  assumes run: "attemptFetchDynamicConfigWithRetry cbm app tm c envs s = (r, c', s')"
  and unconfigured: "\<And>tm c envs s. \<not> configured app \<Longrightarrow>
        P tm c envs s (RejectedWith (Error ''no api key'')) c s"
  and cut: "\<And>tm c envs s c' s'. \<lbrakk>configured app;
        appThrottleMetadata s' = appThrottleMetadata s; now s \<le> now s';
        trace s' = trace s @ [TimeoutArmed (max (throttleEndTimeMillis tm - now s) 0), Aborted]\<rbrakk>
      \<Longrightarrow> P tm c envs s (RejectedWith (throttled (throttleEndTimeMillis tm))) c' s'"
  and hangs: "\<And>tm c envs s c' s' ab. \<lbrakk>configured app;
        envs = [] \<or> (\<exists>env envs'. envs = env # envs' \<and> fetch_outcome env = Pending);
        appThrottleMetadata s' = appThrottleMetadata s; now s \<le> now s';
        trace s' = trace s @ TimeoutArmed (max (throttleEndTimeMillis tm - now s) 0) # request_of app # ab;
        ab = [] \<or> ab = [Aborted]\<rbrakk>
      \<Longrightarrow> P tm c envs s Pending c' s'"
  and success: "\<And>tm c env envs' s c' s2 ab response. \<lbrakk>configured app;
        fetch_outcome env = Fulfilled response;
        appThrottleMetadata s2 = appThrottleMetadata s; throttleEndTimeMillis tm \<le> now s2; now s \<le> now s2;
        trace s2 = trace s @ TimeoutArmed (max (throttleEndTimeMillis tm - now s) 0) # request_of app # ab;
        ab = [] \<or> ab = [Aborted]\<rbrakk>
      \<Longrightarrow> P tm c (env # envs') s (Fulfilled response) c'
            (delete_metadata (the (appId (options app))) s2)"
  and fatal: "\<And>tm c env envs' s c' s2 ab e. \<lbrakk>configured app;
        fetch_outcome env = RejectedWith e; \<not> isRetriableError e;
        appThrottleMetadata s2 = appThrottleMetadata s; throttleEndTimeMillis tm \<le> now s2; now s \<le> now s2;
        trace s2 = trace s @ TimeoutArmed (max (throttleEndTimeMillis tm - now s) 0) # request_of app # ab;
        ab = [] \<or> ab = [Aborted]\<rbrakk>
      \<Longrightarrow> P tm c (env # envs') s (RejectedWith e) c'
            (delete_metadata (the (appId (options app))) s2)"
  and retry: "\<And>tm c env envs' s c2 s2 ab e r c' s'. \<lbrakk>configured app;
        fetch_outcome env = RejectedWith e; isRetriableError e;
        appThrottleMetadata s2 = appThrottleMetadata s; throttleEndTimeMillis tm \<le> now s2; now s \<le> now s2;
        trace s2 = trace s @ TimeoutArmed (max (throttleEndTimeMillis tm - now s) 0) # request_of app # ab;
        ab = [] \<or> ab = [Aborted];
        attemptFetchDynamicConfigWithRetry cbm app
           \<lparr>backoffCount = backoffCount tm + 1,
            throttleEndTimeMillis = now s2 + cbm (backoffCount tm) (jitter env)\<rparr> c2 envs'
           (store_metadata (the (appId (options app)))
              \<lparr>backoffCount = backoffCount tm + 1,
               throttleEndTimeMillis = now s2 + cbm (backoffCount tm) (jitter env)\<rparr> s2) = (r, c', s');
        P \<lparr>backoffCount = backoffCount tm + 1,
            throttleEndTimeMillis = now s2 + cbm (backoffCount tm) (jitter env)\<rparr> c2 envs'
           (store_metadata (the (appId (options app)))
              \<lparr>backoffCount = backoffCount tm + 1,
               throttleEndTimeMillis = now s2 + cbm (backoffCount tm) (jitter env)\<rparr> s2) r c' s'\<rbrakk>
      \<Longrightarrow> P tm c (env # envs') s r c' s'"
  shows "P tm c envs s r c' s'"
  using run
proof (induction envs arbitrary: tm c s)
  case Nil
  from Nil.prems show ?case
  proof (cases rule: attempt_cases)
    case unconfigured
    with assms(2) show ?thesis by simp
  next
    case cut
    from cut(2) show ?thesis
      by (cases rule: await_setAbortableTimeout_cases)
         (use cut assms(3) in \<open>auto simp: throttled_def ERROR_FACTORY_create_def\<close>)
  next
    case (hangs c1 s1 env)
    from iteration_frame [OF hangs(1,2,5)] hangs(3,6) show ?thesis
      by (auto intro!: assms(4) [OF hangs(1)])
  qed simp_all
next
  case (Cons env envs')
  from Cons.prems show ?case
  proof (cases rule: attempt_cases)
    case unconfigured
    with assms(2) show ?thesis by simp
  next
    case cut
    from cut(2) show ?thesis
      by (cases rule: await_setAbortableTimeout_cases)
         (use cut assms(3) in \<open>auto simp: throttled_def ERROR_FACTORY_create_def\<close>)
  next
    case (hangs c1 s1 env0)
    from iteration_frame [OF hangs(1,2,5)] hangs(3,4,6) show ?thesis
      by (auto intro!: assms(4) [OF hangs(1)])
  next
    case (success c1 s1 env0 envs0 s2 response)
    from iteration_frame [OF success(1,2,5)] success(3,4,6,7) show ?thesis
      by (auto intro!: assms(5) [OF success(1)])
  next
    case (fatal c1 s1 env0 envs0 s2 e)
    from iteration_frame [OF fatal(1,2,6)] fatal(3,4,5,7,8) show ?thesis
      by (auto intro!: assms(6) [OF fatal(1)])
  next
    case (retry c1 s1 env0 envs0 c2 s2 e)
    from retry(3) have eq: "env0 = env" "envs0 = envs'" by simp_all
    from Cons.IH [OF retry(7) [unfolded eq]] have ih: "P \<lparr>backoffCount = backoffCount tm + 1,
            throttleEndTimeMillis = now s2 + cbm (backoffCount tm) (jitter env)\<rparr> c2 envs'
           (store_metadata (the (appId (options app)))
              \<lparr>backoffCount = backoffCount tm + 1,
               throttleEndTimeMillis = now s2 + cbm (backoffCount tm) (jitter env)\<rparr> s2) r c' s'" .
    from iteration_frame [OF retry(1,2,6)] retry(4,5) retry(7) [unfolded eq] ih eq show ?thesis
      by (auto intro!: assms(7) [OF retry(1)])
  qed
qed

section \<open>What a run writes\<close>


lemma stores_append: "stores (xs @ ys) = stores xs @ stores ys"
  by (induction xs rule: stores.induct) simp_all

lemma fetches_append: "fetches (xs @ ys) = fetches xs + fetches ys"
  by (induction xs rule: fetches.induct) simp_all

lemma watchdogs_armed_append: "watchdogs_armed (xs @ ys) = watchdogs_armed xs @ watchdogs_armed ys"
  by (induction xs rule: watchdogs_armed.induct) simp_all

lemma timeouts_armed_append: "timeouts_armed (xs @ ys) = timeouts_armed xs @ timeouts_armed ys"
  by (induction xs rule: timeouts_armed.induct) simp_all

lemma apply_writes_append: "apply_writes (xs @ ys) m = apply_writes ys (apply_writes xs m)"
proof (induction xs arbitrary: m)
  case Nil
  show ?case by simp
next
  case (Cons ev xs)
  then show ?case by (cases ev) (simp_all add: fun_upd_def)
qed

lemma request_of_simps [simp]:
  "stores (request_of app # evs) = stores evs"
  "fetches (request_of app # evs) = Suc (fetches evs)"
  "watchdogs_armed (request_of app # evs) = watchdogs_armed evs"
  "timeouts_armed (request_of app # evs) = timeouts_armed evs"
  "apply_writes (request_of app # evs) m = apply_writes evs m"
  by (simp_all add: request_of_def)

lemma count_up_from:
  "map (\<lambda>k. b + int k) [Suc 0..<Suc (Suc n)]
     = (b + 1) # map (\<lambda>k. (b + 1) + int k) [Suc 0..<Suc n]"
proof -
  have "[Suc 0..<Suc (Suc n)] = Suc 0 # map Suc [Suc 0..<Suc n]"
    by (metis map_Suc_upt upt_conv_Cons zero_less_Suc Suc_less_eq)
  then show ?thesis by (simp add: comp_def del: upt_Suc)
qed

lemma attempt_run_ok:
  assumes nonneg: "\<And>n j. 0 \<le> cbm n j"
    and run: "attemptFetchDynamicConfigWithRetry cbm app tm c envs s = (r, c', s')"
  shows "\<exists>evs. trace s' = trace s @ evs
           \<and> run_ok app tm envs (appThrottleMetadata s) (appThrottleMetadata s') evs"
  using run
proof (induction rule: attempt_induct)
  case (unconfigured tm c envs s)
  then show ?case by (simp add: run_ok_def)
next
  case (cut tm c envs s c' s')
  then show ?case by (simp add: run_ok_def)
next
  case (hangs tm c envs s c' s' ab)
  then show ?case by (auto simp: run_ok_def fails_retriably_def)
next
  case (success tm c env envs' s c' s2 ab response)
  then show ?case by (auto simp: run_ok_def fails_retriably_def delete_metadata_def apply_writes_append)
next
  case (fatal tm c env envs' s c' s2 ab e)
  then show ?case by (auto simp: run_ok_def fails_retriably_def delete_metadata_def apply_writes_append)
next
  case (retry tm c env envs' s c2 s2 ab e r c' s')
  define a where "a = the (appId (options app))"
  define tm' where "tm' = \<lparr>backoffCount = backoffCount tm + 1,
            throttleEndTimeMillis = now s2 + cbm (backoffCount tm) (jitter env)\<rparr>"
  define pre where "pre = TimeoutArmed (max (throttleEndTimeMillis tm - now s) 0) # request_of app # ab @ [Stored a tm']"
  from retry.IH obtain evs where evs: "trace s' = trace (store_metadata a tm' s2) @ evs"
    and ok: "run_ok app tm' envs' (appThrottleMetadata (store_metadata a tm' s2)) (appThrottleMetadata s') evs"
    unfolding a_def tm'_def by blast
  have tr: "trace s' = trace s @ pre @ evs"
    using evs retry(7) by (simp add: store_metadata_def pre_def)
  have pre_simps: "stores pre = [(a, tm')]" "fetches pre = 1" "watchdogs_armed pre = []"
    "apply_writes pre (appThrottleMetadata s) = appThrottleMetadata (store_metadata a tm' s2)"
    using retry(8) retry(4) by (auto simp: pre_def stores_append fetches_append watchdogs_armed_append
        apply_writes_append store_metadata_def)
  have fr: "fails_retriably env" using retry(2,3) by (simp add: fails_retriably_def)
  have le: "throttleEndTimeMillis tm \<le> throttleEndTimeMillis tm'"
    using retry(5) nonneg [of "backoffCount tm" "jitter env"] by (simp add: tm'_def)
  have bc: "backoffCount tm' = backoffCount tm + 1" and en: "throttleEndTimeMillis tm \<le> throttleEndTimeMillis tm'"
    using le by (simp_all add: tm'_def)
  from ok have q: "appThrottleMetadata s' = apply_writes evs (appThrottleMetadata (store_metadata a tm' s2))"
    "watchdogs_armed evs = []"
    "length (stores evs) = length (takeWhile fails_retriably (take (fetches evs) envs'))"
    "map fst (stores evs) = replicate (length (stores evs)) a"
    "map (backoffCount \<circ> snd) (stores evs)
          = map (\<lambda>k. (backoffCount tm + 1) + int k) [1..<Suc (length (stores evs))]"
    "sorted (map (throttleEndTimeMillis \<circ> snd) (stores evs))"
    "list_all (\<lambda>p. throttleEndTimeMillis tm' \<le> throttleEndTimeMillis (snd p)) (stores evs)"
    by (simp_all add: run_ok_def a_def bc)
  have st: "stores (pre @ evs) = (a, tm') # stores evs"
    and fe: "fetches (pre @ evs) = Suc (fetches evs)"
    by (simp_all add: stores_append fetches_append pre_simps)
  have "run_ok app tm (env # envs') (appThrottleMetadata s) (appThrottleMetadata s') (pre @ evs)"
    unfolding run_ok_def st fe
  proof (intro conjI)
    show "appThrottleMetadata s' = apply_writes (pre @ evs) (appThrottleMetadata s)"
      by (simp add: apply_writes_append pre_simps q(1))
    show "watchdogs_armed (pre @ evs) = []"
      by (simp add: watchdogs_armed_append pre_simps q(2))
    show "length ((a, tm') # stores evs)
      = length (takeWhile fails_retriably (take (Suc (fetches evs)) (env # envs')))"
      using fr q(3) by simp
    show "map fst ((a, tm') # stores evs)
      = replicate (length ((a, tm') # stores evs)) (the (appId (options app)))"
      using q(4) by (simp add: a_def)
    show "map (backoffCount \<circ> snd) ((a, tm') # stores evs)
      = map (\<lambda>k. backoffCount tm + int k) [1..<Suc (length ((a, tm') # stores evs))]"
      using q(5) bc by (simp add: count_up_from del: upt_Suc)
    show "sorted (map (throttleEndTimeMillis \<circ> snd) ((a, tm') # stores evs))"
      using q(6,7) by (auto simp: list_all_iff)
    show "list_all (\<lambda>p. throttleEndTimeMillis tm \<le> throttleEndTimeMillis (snd p)) ((a, tm') # stores evs)"
      using q(7) en by (auto simp: list_all_iff)
  qed
  with tr show ?case by blast
qed

section \<open>Claims about the retry loop\<close>


lemmas model_defs =
  await_setAbortableTimeout_def setAbortableTimeout_def await_timeout_def run_timers_until_def
  run_watchdog_def abort_def listener_def reject_def clearTimeout_def throttled_def
  addEventListener_def timeout_fires_def resolve_def await_fetchDynamicConfig_def
  fetchDynamicConfig_def await_def truthy_def getHeaders_def replace_def DYNAMIC_CONFIG_URL_def
  isRetriableError_def delete_metadata_def store_metadata_def ERROR_FACTORY_create_def
  FETCH_TIMEOUT_MILLIS_def fetchDynamicConfigWithRetry_def unanswered_def Let_def

lemmas example_defs =
  example_world_def example_call_def doubling_def fails_with_def succeeds_def fakeAppParams_def
  mockResponse_def mockAnalyticsId_def mockFid_def



lemma isRetriableError_iff:
  "isRetriableError e \<longleftrightarrow>
     (\<exists>code data httpStatus. e = FirebaseError code data
        \<and> map_of data ''httpStatus'' = Some httpStatus
        \<and> httpStatus \<in> {429, 500, 503, 504})"
  by (cases e) (auto simp: isRetriableError_def split: option.splits)

text \<open>One turn of the loop whose wait elapses and whose request fails.\<close>

lemma failed_attempt:
  assumes conf: "configured app"
    and elapse: "watchdog c = None
        \<or> (\<exists>wd. watchdog c = Some wd \<and> now s + max (throttleEndTimeMillis tm - now s) 0 < wd)"
    and fail: "fetch_outcome env = RejectedWith e"
  shows "\<exists>c2 s2 ab.
    s2 = s\<lparr>now := now s + max (throttleEndTimeMillis tm - now s) 0 + int (latency env),
            trace := trace s @ TimeoutArmed (max (throttleEndTimeMillis tm - now s) 0)
                       # request_of app # ab\<rparr>
    \<and> (ab = [] \<or> ab = [Aborted])
    \<and> attemptFetchDynamicConfigWithRetry cbm app tm c (env # envs) s =
       (if isRetriableError e
        then attemptFetchDynamicConfigWithRetry cbm app
               \<lparr>backoffCount = backoffCount tm + 1,
                throttleEndTimeMillis = now s2 + cbm (backoffCount tm) (jitter env)\<rparr> c2 envs
               (store_metadata (the (appId (options app)))
                  \<lparr>backoffCount = backoffCount tm + 1,
                   throttleEndTimeMillis = now s2 + cbm (backoffCount tm) (jitter env)\<rparr> s2)
        else (RejectedWith e, c2, delete_metadata (the (appId (options app))) s2))"
proof -
  define d where "d = now s + max (throttleEndTimeMillis tm - now s) 0"
  define c1 where "c1 = c\<lparr>signal := (signal c)\<lparr>listeners := listeners (signal c) @
          [\<lparr>requested_end = throttleEndTimeMillis tm, due = d, armed = False, settled = Fulfilled ()\<rparr>]\<rparr>\<rparr>"
  define s1 where "s1 = s\<lparr>now := d, trace := trace s @ [TimeoutArmed (max (throttleEndTimeMillis tm - now s) 0)]\<rparr>"
  have w: "await_setAbortableTimeout c (throttleEndTimeMillis tm) s = (Fulfilled (), c1, s1)"
    using await_setAbortableTimeout_elapses [OF elapse] by (simp add: c1_def s1_def d_def)
  obtain r2 c2 s2 where f: "await_fetchDynamicConfig app env c1 s1 = (r2, c2, s2)"
    using prod_cases3 by blast
  from fail have ne: "fetch_outcome env \<noteq> Pending" by simp
  note fr = await_fetchDynamicConfig_settles [OF conf ne f]
  from fr(1) fail have r2: "r2 = RejectedWith e" by simp
  define ab where "ab = (if trace s2 = trace s1 @ [request_of app] then [] else [Aborted])"
  have s2: "s2 = s\<lparr>now := d + int (latency env),
            trace := trace s @ TimeoutArmed (max (throttleEndTimeMillis tm - now s) 0) # request_of app # ab\<rparr>"
    using fr(2,3,4) by (intro world.equality) (auto simp: s1_def ab_def)
  have ab: "ab = [] \<or> ab = [Aborted]" by (simp add: ab_def)
  have t: "truthy (apiKey (options app))" "truthy (appId (options app))"
    using conf by (simp_all add: configured_def)
  have run: "attemptFetchDynamicConfigWithRetry cbm app tm c (env # envs) s =
       (if isRetriableError e
        then attemptFetchDynamicConfigWithRetry cbm app
               \<lparr>backoffCount = backoffCount tm + 1,
                throttleEndTimeMillis = now s2 + cbm (backoffCount tm) (jitter env)\<rparr> c2 envs
               (store_metadata (the (appId (options app)))
                  \<lparr>backoffCount = backoffCount tm + 1,
                   throttleEndTimeMillis = now s2 + cbm (backoffCount tm) (jitter env)\<rparr> s2)
        else (RejectedWith e, c2, delete_metadata (the (appId (options app))) s2))"
    by (simp add: w f r2 t Let_def)
  show ?thesis
    by (rule exI [of _ c2], rule exI [of _ s2], rule exI [of _ ab], intro conjI)
       (use s2 in \<open>simp add: d_def\<close>, fact ab, fact run)
qed

text \<open>
  C2. An error is classified as retriable exactly when it is a \<^verbatim>\<open>FirebaseError\<close> whose
  \<^verbatim>\<open>httpStatus\<close> is 429, 500, 503 or 504. When the wait of a turn of the loop has elapsed
  and its request fails with error \<open>e\<close>, then, \<open>s2\<close> being the world at the failure:
  if \<open>e\<close> is retriable, the loop stores metadata with the backoff count raised by one and
  the end time put forward by the computed backoff, and runs again from that metadata; if
  not, the call ends there, rejected with \<open>e\<close>.
\<close>

theorem retriable_classification:
  "(isRetriableError e \<longleftrightarrow>
      (\<exists>code data httpStatus. e = FirebaseError code data
         \<and> map_of data ''httpStatus'' = Some httpStatus
         \<and> httpStatus \<in> {429, 500, 503, 504}))
   \<and> (configured app
        \<and> (watchdog c = None
             \<or> (\<exists>wd. watchdog c = Some wd \<and> now s + max (throttleEndTimeMillis tm - now s) 0 < wd))
        \<and> fetch_outcome env = RejectedWith e
      \<longrightarrow> (\<exists>c2 s2 ab.
             s2 = s\<lparr>now := now s + max (throttleEndTimeMillis tm - now s) 0 + int (latency env),
                     trace := trace s @ TimeoutArmed (max (throttleEndTimeMillis tm - now s) 0)
                                # request_of app # ab\<rparr>
           \<and> (ab = [] \<or> ab = [Aborted])
           \<and> attemptFetchDynamicConfigWithRetry calculateBackoffMillis app tm c (env # envs) s =
               (if isRetriableError e
                then attemptFetchDynamicConfigWithRetry calculateBackoffMillis app
                       \<lparr>backoffCount = backoffCount tm + 1,
                        throttleEndTimeMillis =
                          now s2 + calculateBackoffMillis (backoffCount tm) (jitter env)\<rparr> c2 envs
                       (s2\<lparr>appThrottleMetadata := (appThrottleMetadata s2)
                              (the (appId (options app)) \<mapsto>
                                 \<lparr>backoffCount = backoffCount tm + 1,
                                  throttleEndTimeMillis =
                                    now s2 + calculateBackoffMillis (backoffCount tm) (jitter env)\<rparr>),
                            trace := trace s2 @
                              [Stored (the (appId (options app)))
                                 \<lparr>backoffCount = backoffCount tm + 1,
                                  throttleEndTimeMillis =
                                    now s2 + calculateBackoffMillis (backoffCount tm) (jitter env)\<rparr>]\<rparr>)
                else (RejectedWith e, c2,
                      s2\<lparr>appThrottleMetadata := (appThrottleMetadata s2)(the (appId (options app)) := None),
                           trace := trace s2 @ [Deleted (the (appId (options app)))]\<rparr>))))"
proof (intro conjI impI)
  show "isRetriableError e \<longleftrightarrow>
      (\<exists>code data httpStatus. e = FirebaseError code data
         \<and> map_of data ''httpStatus'' = Some httpStatus
         \<and> httpStatus \<in> {429, 500, 503, 504})"
    by (rule isRetriableError_iff)
next
  assume a: "configured app
        \<and> (watchdog c = None
             \<or> (\<exists>wd. watchdog c = Some wd \<and> now s + max (throttleEndTimeMillis tm - now s) 0 < wd))
        \<and> fetch_outcome env = RejectedWith e"
  then have conf: "configured app"
    and elapse: "watchdog c = None
             \<or> (\<exists>wd. watchdog c = Some wd \<and> now s + max (throttleEndTimeMillis tm - now s) 0 < wd)"
    and fail: "fetch_outcome env = RejectedWith e"
    by simp_all
  from failed_attempt [OF conf elapse fail, of calculateBackoffMillis envs]
  show "\<exists>c2 s2 ab.
             s2 = s\<lparr>now := now s + max (throttleEndTimeMillis tm - now s) 0 + int (latency env),
                     trace := trace s @ TimeoutArmed (max (throttleEndTimeMillis tm - now s) 0)
                                # request_of app # ab\<rparr>
           \<and> (ab = [] \<or> ab = [Aborted])
           \<and> attemptFetchDynamicConfigWithRetry calculateBackoffMillis app tm c (env # envs) s =
               (if isRetriableError e
                then attemptFetchDynamicConfigWithRetry calculateBackoffMillis app
                       \<lparr>backoffCount = backoffCount tm + 1,
                        throttleEndTimeMillis =
                          now s2 + calculateBackoffMillis (backoffCount tm) (jitter env)\<rparr> c2 envs
                       (s2\<lparr>appThrottleMetadata := (appThrottleMetadata s2)
                              (the (appId (options app)) \<mapsto>
                                 \<lparr>backoffCount = backoffCount tm + 1,
                                  throttleEndTimeMillis =
                                    now s2 + calculateBackoffMillis (backoffCount tm) (jitter env)\<rparr>),
                            trace := trace s2 @
                              [Stored (the (appId (options app)))
                                 \<lparr>backoffCount = backoffCount tm + 1,
                                  throttleEndTimeMillis =
                                    now s2 + calculateBackoffMillis (backoffCount tm) (jitter env)\<rparr>]\<rparr>)
                else (RejectedWith e, c2,
                      s2\<lparr>appThrottleMetadata := (appThrottleMetadata s2)(the (appId (options app)) := None),
                           trace := trace s2 @ [Deleted (the (appId (options app)))]\<rparr>))"
    unfolding store_metadata_def delete_metadata_def .
qed

text \<open>Status 503, then the test's response: the loop runs again with count 1.\<close>

theorem retriable_classification_witness:
  "isRetriableError (FirebaseError (Inr ''fetch-failed'') [(''httpStatus'', 503)])
   \<and> \<not> isRetriableError (FirebaseError (Inr ''fetch-failed'') [(''httpStatus'', 400)])
   \<and> configured fakeAppParams
   \<and> fetch_outcome (fails_with 503) = RejectedWith (FirebaseError (Inr ''fetch-failed'') [(''httpStatus'', 503)])
   \<and> (\<exists>c2 s2 ab.
         s2 = \<lparr>now = 1020, appThrottleMetadata = Map.empty,
               trace = TimeoutArmed 0 # request_of fakeAppParams # ab\<rparr>
       \<and> (ab = [] \<or> ab = [Aborted])
       \<and> attemptFetchDynamicConfigWithRetry doubling fakeAppParams
            \<lparr>backoffCount = 0, throttleEndTimeMillis = 1000\<rparr> example_call
            [fails_with 503, succeeds] example_world
          = attemptFetchDynamicConfigWithRetry doubling fakeAppParams
              \<lparr>backoffCount = 1, throttleEndTimeMillis = 2027\<rparr> c2 [succeeds]
              (s2\<lparr>appThrottleMetadata := [''abcdefgh12345:23405'' \<mapsto>
                      \<lparr>backoffCount = 1, throttleEndTimeMillis = 2027\<rparr>],
                   trace := trace s2 @ [Stored ''abcdefgh12345:23405''
                      \<lparr>backoffCount = 1, throttleEndTimeMillis = 2027\<rparr>]\<rparr>))"
  using retriable_classification [where e = "FirebaseError (Inr ''fetch-failed'') [(''httpStatus'', 503)]"
      and app = fakeAppParams and c = example_call and s = example_world
      and tm = "\<lparr>backoffCount = 0, throttleEndTimeMillis = 1000\<rparr>" and env = "fails_with 503"
      and envs = "[succeeds]" and calculateBackoffMillis = doubling]
  by (simp add: isRetriableError_def configured_def truthy_def fetch_outcome_def
      example_world_def example_call_def doubling_def fails_with_def fakeAppParams_def
      del: attemptFetchDynamicConfigWithRetry.simps)

text \<open>
  When the wait of a turn of the loop has elapsed and its request fails with an error
  \<open>e\<close> that is not retriable (a \<^verbatim>\<open>FirebaseError\<close> with status 400, or any error that is
  not a \<^verbatim>\<open>FirebaseError\<close>), the call is rejected with \<open>e\<close> itself at the time of the
  failure, the property of the object's own under the app's id is deleted, and nothing
  follows the request but the deletion (and the watchdog's abort, if it came due while the
  request was under way): no timer is armed after the failure.
\<close>

lemma non_retriable_failure_is_final:
  assumes "configured app"
    and "watchdog c = None
        \<or> (\<exists>wd. watchdog c = Some wd \<and> now s + max (throttleEndTimeMillis tm - now s) 0 < wd)"
    and "fetch_outcome env = RejectedWith e"
    and "\<not> isRetriableError e"
  shows "\<exists>c' ab. (ab = [] \<or> ab = [Aborted])
    \<and> attemptFetchDynamicConfigWithRetry calculateBackoffMillis app tm c (env # envs) s =
        (RejectedWith e, c',
         s\<lparr>now := now s + max (throttleEndTimeMillis tm - now s) 0 + int (latency env),
            appThrottleMetadata := (appThrottleMetadata s)(the (appId (options app)) := None),
            trace := trace s @ TimeoutArmed (max (throttleEndTimeMillis tm - now s) 0)
                       # request_of app # ab @ [Deleted (the (appId (options app)))]\<rparr>)
    \<and> timeouts_armed (TimeoutArmed (max (throttleEndTimeMillis tm - now s) 0)
                       # request_of app # ab @ [Deleted (the (appId (options app)))])
        = [max (throttleEndTimeMillis tm - now s) 0]"
proof -
  from failed_attempt [OF assms(1-3), of calculateBackoffMillis envs] assms(4)
  obtain c2 s2 ab where s2: "s2 = s\<lparr>now := now s + max (throttleEndTimeMillis tm - now s) 0 + int (latency env),
            trace := trace s @ TimeoutArmed (max (throttleEndTimeMillis tm - now s) 0)
                       # request_of app # ab\<rparr>"
    and ab: "ab = [] \<or> ab = [Aborted]"
    and run: "attemptFetchDynamicConfigWithRetry calculateBackoffMillis app tm c (env # envs) s =
        (RejectedWith e, c2, delete_metadata (the (appId (options app))) s2)"
    by auto
  have "delete_metadata (the (appId (options app))) s2 =
     s\<lparr>now := now s + max (throttleEndTimeMillis tm - now s) 0 + int (latency env),
            appThrottleMetadata := (appThrottleMetadata s)(the (appId (options app)) := None),
            trace := trace s @ TimeoutArmed (max (throttleEndTimeMillis tm - now s) 0)
                       # request_of app # ab @ [Deleted (the (appId (options app)))]\<rparr>"
    by (simp add: s2 delete_metadata_def)
  with run ab show ?thesis
    by (intro exI [of _ c2] exI [of _ ab]) (auto simp: request_of_def)
qed

text \<open>Status 400 on the first request of the example call.\<close>

lemma non_retriable_failure_is_final_example:
  "configured fakeAppParams
   \<and> fetch_outcome (fails_with 400) = RejectedWith (FirebaseError (Inr ''fetch-failed'') [(''httpStatus'', 400)])
   \<and> \<not> isRetriableError (FirebaseError (Inr ''fetch-failed'') [(''httpStatus'', 400)])
   \<and> (\<exists>c' ab. (ab = [] \<or> ab = [Aborted])
        \<and> attemptFetchDynamicConfigWithRetry doubling fakeAppParams
             \<lparr>backoffCount = 0, throttleEndTimeMillis = 1000\<rparr> example_call
             [fails_with 400, succeeds] example_world
           = (RejectedWith (FirebaseError (Inr ''fetch-failed'') [(''httpStatus'', 400)]), c',
              \<lparr>now = 1020, appThrottleMetadata = Map.empty,
               trace = TimeoutArmed 0 # request_of fakeAppParams # ab @ [Deleted ''abcdefgh12345:23405'']\<rparr>))"
  using non_retriable_failure_is_final [where e = "FirebaseError (Inr ''fetch-failed'') [(''httpStatus'', 400)]"
      and app = fakeAppParams and c = example_call and s = example_world
      and tm = "\<lparr>backoffCount = 0, throttleEndTimeMillis = 1000\<rparr>" and env = "fails_with 400"
      and envs = "[succeeds]" and calculateBackoffMillis = doubling]
  apply (simp add: isRetriableError_def configured_def truthy_def fetch_outcome_def
      example_world_def example_call_def doubling_def fails_with_def fakeAppParams_def
      del: attemptFetchDynamicConfigWithRetry.simps)
  apply blast
  done

lemma success_clears:
  assumes "attemptFetchDynamicConfigWithRetry cbm app tm c envs s = (r, c', s')"
  shows "\<forall>response. r = Fulfilled response \<longrightarrow>
           configured app \<and> appThrottleMetadata s' (the (appId (options app))) = None
           \<and> (\<exists>evs. trace s' = evs @ [Deleted (the (appId (options app)))])"
  using assms
proof (induction rule: attempt_induct)
  case (success tm c env envs' s c' s2 ab response)
  then show ?case by (simp add: delete_metadata_def)
qed (simp_all add: throttled_def ERROR_FACTORY_create_def)

lemma fresh_start:
  assumes "configured app" "appThrottleMetadata s (the (appId (options app))) = None"
  shows "fetchDynamicConfigWithRetry cbm app envs s =
           attemptFetchDynamicConfigWithRetry cbm app
             \<lparr>backoffCount = 0, throttleEndTimeMillis = now s\<rparr>
             \<lparr>signal = \<lparr>listeners = []\<rparr>, watchdog = Some (now s + 60000)\<rparr> envs
             (s\<lparr>trace := trace s @ [WatchdogArmed 60000]\<rparr>)"
  using assms by (simp add: fetchDynamicConfigWithRetry_def configured_def FETCH_TIMEOUT_MILLIS_def)

lemma top_level_configured:
  assumes "configured app"
  shows "fetchDynamicConfigWithRetry cbm app envs s =
           attemptFetchDynamicConfigWithRetry cbm app
             (case appThrottleMetadata s (the (appId (options app))) of
                Some stored \<Rightarrow> stored
              | None \<Rightarrow> \<lparr>backoffCount = 0, throttleEndTimeMillis = now s\<rparr>)
             \<lparr>signal = \<lparr>listeners = []\<rparr>, watchdog = Some (now s + 60000)\<rparr> envs
             (s\<lparr>trace := trace s @ [WatchdogArmed 60000]\<rparr>)"
  using assms by (simp add: fetchDynamicConfigWithRetry_def configured_def FETCH_TIMEOUT_MILLIS_def)

lemma top_level_unconfigured:
  assumes "\<not> configured app"
  shows "fetchDynamicConfigWithRetry cbm app envs s =
           (RejectedWith (Error ''no api key''), \<lparr>signal = \<lparr>listeners = []\<rparr>, watchdog = None\<rparr>, s)"
  using assms by (auto simp add: fetchDynamicConfigWithRetry_def configured_def)

text \<open>One turn of the loop whose wait elapses and whose request succeeds.\<close>

lemma successful_attempt:
  assumes conf: "configured app"
    and elapse: "watchdog c = None
        \<or> (\<exists>wd. watchdog c = Some wd \<and> now s + max (throttleEndTimeMillis tm - now s) 0 < wd)"
    and success: "fetch_outcome env = Fulfilled response"
  shows "\<exists>c2 ab. (ab = [] \<or> ab = [Aborted])
    \<and> attemptFetchDynamicConfigWithRetry cbm app tm c (env # envs) s =
       (Fulfilled response, c2,
        s\<lparr>now := now s + max (throttleEndTimeMillis tm - now s) 0 + int (latency env),
           appThrottleMetadata := (appThrottleMetadata s)(the (appId (options app)) := None),
           trace := trace s @ TimeoutArmed (max (throttleEndTimeMillis tm - now s) 0)
                      # request_of app # ab @ [Deleted (the (appId (options app)))]\<rparr>)"
proof -
  define d where "d = now s + max (throttleEndTimeMillis tm - now s) 0"
  define c1 where "c1 = c\<lparr>signal := (signal c)\<lparr>listeners := listeners (signal c) @
          [\<lparr>requested_end = throttleEndTimeMillis tm, due = d, armed = False, settled = Fulfilled ()\<rparr>]\<rparr>\<rparr>"
  define s1 where "s1 = s\<lparr>now := d, trace := trace s @ [TimeoutArmed (max (throttleEndTimeMillis tm - now s) 0)]\<rparr>"
  have w: "await_setAbortableTimeout c (throttleEndTimeMillis tm) s = (Fulfilled (), c1, s1)"
    using await_setAbortableTimeout_elapses [OF elapse] by (simp add: c1_def s1_def d_def)
  obtain r2 c2 s2 where f: "await_fetchDynamicConfig app env c1 s1 = (r2, c2, s2)"
    using prod_cases3 by blast
  from success have ne: "fetch_outcome env \<noteq> Pending" by simp
  note fr = await_fetchDynamicConfig_settles [OF conf ne f]
  from fr(1) success have r2: "r2 = Fulfilled response" by simp
  define ab where "ab = (if trace s2 = trace s1 @ [request_of app] then [] else [Aborted])"
  have s2: "s2 = s\<lparr>now := d + int (latency env),
            trace := trace s @ TimeoutArmed (max (throttleEndTimeMillis tm - now s) 0) # request_of app # ab\<rparr>"
    using fr(2,3,4) by (intro world.equality) (auto simp: s1_def ab_def)
  have ab: "ab = [] \<or> ab = [Aborted]" by (simp add: ab_def)
  have t: "truthy (apiKey (options app))" "truthy (appId (options app))"
    using conf by (simp_all add: configured_def)
  have run: "attemptFetchDynamicConfigWithRetry cbm app tm c (env # envs) s =
       (Fulfilled response, c2, delete_metadata (the (appId (options app))) s2)"
    by (simp add: w f r2 t Let_def)
  have del: "delete_metadata (the (appId (options app))) s2 =
        s\<lparr>now := now s + max (throttleEndTimeMillis tm - now s) 0 + int (latency env),
           appThrottleMetadata := (appThrottleMetadata s)(the (appId (options app)) := None),
           trace := trace s @ TimeoutArmed (max (throttleEndTimeMillis tm - now s) 0)
                      # request_of app # ab @ [Deleted (the (appId (options app)))]\<rparr>"
    by (simp add: s2 delete_metadata_def d_def)
  show ?thesis
    by (rule exI [of _ c2], rule exI [of _ ab], intro conjI) (fact ab, simp only: run del)
qed

text \<open>
  If the promise of the retry loop, or of the top-level call, is fulfilled, then the
  app is configured, the last thing the call did was to delete the property under the
  app's id, and the object has no such property of its own afterwards. A top-level call
  for the same app that finds no metadata under that key at any time \<open>t\<close> is the retry
  loop started with backoff count 0 and throttle end time \<open>t\<close>.
\<close>

lemma success_clears_throttle_metadata:
  assumes "attemptFetchDynamicConfigWithRetry calculateBackoffMillis app tm c envs s
             = (Fulfilled response, c', s')
           \<or> fetchDynamicConfigWithRetry calculateBackoffMillis app envs s
             = (Fulfilled response, c', s')"
  shows "configured app
    \<and> appThrottleMetadata s' (the (appId (options app))) = None
    \<and> (\<exists>evs. trace s' = evs @ [Deleted (the (appId (options app)))])
    \<and> (\<forall>t envs'. fetchDynamicConfigWithRetry calculateBackoffMillis app envs' (s'\<lparr>now := t\<rparr>) =
          attemptFetchDynamicConfigWithRetry calculateBackoffMillis app
            \<lparr>backoffCount = 0, throttleEndTimeMillis = t\<rparr>
            \<lparr>signal = \<lparr>listeners = []\<rparr>, watchdog = Some (t + 60000)\<rparr> envs'
            (s'\<lparr>now := t, trace := trace s' @ [WatchdogArmed 60000]\<rparr>))"
proof -
  have loop: "configured app \<and> appThrottleMetadata s' (the (appId (options app))) = None
    \<and> (\<exists>evs. trace s' = evs @ [Deleted (the (appId (options app)))])"
  proof (cases "configured app")
    case True
    from assms top_level_configured [OF True, of calculateBackoffMillis envs s]
    obtain tm0 c0 s0 where
      "attemptFetchDynamicConfigWithRetry calculateBackoffMillis app tm0 c0 envs s0
         = (Fulfilled response, c', s')"
      by metis
    from success_clears [OF this] show ?thesis by simp
  next
    case False
    from assms top_level_unconfigured [OF False, of calculateBackoffMillis envs s]
    have "attemptFetchDynamicConfigWithRetry calculateBackoffMillis app tm c envs s
             = (Fulfilled response, c', s')"
      by auto
    from success_clears [OF this] False show ?thesis by simp
  qed
  then have "\<forall>t envs'. fetchDynamicConfigWithRetry calculateBackoffMillis app envs' (s'\<lparr>now := t\<rparr>) =
          attemptFetchDynamicConfigWithRetry calculateBackoffMillis app
            \<lparr>backoffCount = 0, throttleEndTimeMillis = t\<rparr>
            \<lparr>signal = \<lparr>listeners = []\<rparr>, watchdog = Some (t + 60000)\<rparr> envs'
            (s'\<lparr>now := t, trace := trace s' @ [WatchdogArmed 60000]\<rparr>)"
    by (simp add: fresh_start)
  with loop show ?thesis by blast
qed

text \<open>A call that succeeds at the second request, and the calls that follow it.\<close>

lemma success_clears_throttle_metadata_example:
  "fst (fetchDynamicConfigWithRetry doubling fakeAppParams [fails_with 503, succeeds] example_world)
     = Fulfilled \<lparr>measurementId = Some ''abcd-efgh-ijkl'', config_appId = None\<rparr>
   \<and> appThrottleMetadata
        (snd (snd (fetchDynamicConfigWithRetry doubling fakeAppParams [fails_with 503, succeeds]
           example_world))) ''abcdefgh12345:23405'' = None
   \<and> (\<forall>t envs'.
        fetchDynamicConfigWithRetry doubling fakeAppParams envs'
          (snd (snd (fetchDynamicConfigWithRetry doubling fakeAppParams [fails_with 503, succeeds]
             example_world))\<lparr>now := t\<rparr>)
        = attemptFetchDynamicConfigWithRetry doubling fakeAppParams
            \<lparr>backoffCount = 0, throttleEndTimeMillis = t\<rparr>
            \<lparr>signal = \<lparr>listeners = []\<rparr>, watchdog = Some (t + 60000)\<rparr> envs'
            (snd (snd (fetchDynamicConfigWithRetry doubling fakeAppParams [fails_with 503, succeeds]
               example_world))
             \<lparr>now := t,
              trace := trace (snd (snd (fetchDynamicConfigWithRetry doubling fakeAppParams
                         [fails_with 503, succeeds] example_world))) @ [WatchdogArmed 60000]\<rparr>))"
proof -
  define run where
    "run = fetchDynamicConfigWithRetry doubling fakeAppParams [fails_with 503, succeeds] example_world"
  have f: "fst run = Fulfilled \<lparr>measurementId = Some ''abcd-efgh-ijkl'', config_appId = None\<rparr>"
    unfolding run_def by (simp add: model_defs example_defs)
  then have r: "run = (Fulfilled \<lparr>measurementId = Some ''abcd-efgh-ijkl'', config_appId = None\<rparr>,
      fst (snd run), snd (snd run))"
    by (metis prod.collapse)
  have a: "the (appId (options fakeAppParams)) = ''abcdefgh12345:23405''"
    by (simp add: fakeAppParams_def)
  from success_clears_throttle_metadata [OF disjI2, OF r [unfolded run_def]] f
  show ?thesis unfolding a run_def by simp
qed

lemma attempt_arms_no_watchdog:
  assumes "attemptFetchDynamicConfigWithRetry cbm app tm c envs s = (r, c', s')"
  shows "\<exists>evs. trace s' = trace s @ evs \<and> watchdogs_armed evs = []"
  using assms
proof (induction rule: attempt_induct)
  case (retry tm c env envs' s c2 s2 ab e r c' s')
  from retry.IH obtain evs where evs: "trace s' = trace s2 @ Stored (the (appId (options app)))
       \<lparr>backoffCount = backoffCount tm + 1,
        throttleEndTimeMillis = now s2 + cbm (backoffCount tm) (jitter env)\<rparr> # evs"
    "watchdogs_armed evs = []"
    by (auto simp: store_metadata_def)
  with retry(7,8) show ?case by (auto simp: watchdogs_armed_append)
qed (auto simp: delete_metadata_def watchdogs_armed_append)

lemma top_level_trace:
  assumes conf: "configured app"
    and run: "fetchDynamicConfigWithRetry cbm app envs s = (r, c', s')"
  shows "\<exists>evs. trace s' = trace s @ WatchdogArmed 60000 # evs \<and> watchdogs_armed evs = []"
proof -
  from run top_level_configured [OF conf, of cbm envs s]
  obtain tm0 where "attemptFetchDynamicConfigWithRetry cbm app tm0
             \<lparr>signal = \<lparr>listeners = []\<rparr>, watchdog = Some (now s + 60000)\<rparr> envs
             (s\<lparr>trace := trace s @ [WatchdogArmed 60000]\<rparr>) = (r, c', s')"
    by metis
  from attempt_arms_no_watchdog [OF this] show ?thesis by auto
qed

lemma cut_attempt:
  assumes conf: "configured app"
    and wd: "watchdog c = Some wd" "now s \<le> wd" "wd < throttleEndTimeMillis tm"
  shows "attemptFetchDynamicConfigWithRetry cbm app tm c envs s =
     (RejectedWith (throttled (throttleEndTimeMillis tm)),
      c\<lparr>signal := (signal c)\<lparr>listeners := map listener (listeners (signal c)) @
          [\<lparr>requested_end = throttleEndTimeMillis tm, due = throttleEndTimeMillis tm, armed = False,
            settled = RejectedWith (throttled (throttleEndTimeMillis tm))\<rparr>]\<rparr>,
        watchdog := None\<rparr>,
      s\<lparr>now := wd, trace := trace s @ [TimeoutArmed (throttleEndTimeMillis tm - now s), Aborted]\<rparr>)"
proof -
  have t: "truthy (apiKey (options app))" "truthy (appId (options app))"
    using conf by (simp_all add: configured_def)
  have le: "wd \<le> now s + max (throttleEndTimeMillis tm - now s) 0" using wd by simp
  have m: "max (throttleEndTimeMillis tm - now s) 0 = throttleEndTimeMillis tm - now s"
    "max (now s) wd = wd"
    using wd by simp_all
  show ?thesis
    by (cases envs) (simp_all add: t await_setAbortableTimeout_aborted [OF wd(1) le] m)
qed

text \<open>
  C6. A top-level call for an app that lacks the API key or the app id arms no timer at
  all: the call is rejected by the guard before the watchdog is set.
\<close>

theorem watchdog_not_armed_without_api_key:
  "fst (fetchDynamicConfigWithRetry doubling
          \<lparr>options = \<lparr>apiKey = None, appId = Some ''abcdefgh12345:23405''\<rparr>\<rparr>
          [succeeds] example_world)
     = RejectedWith (Error ''no api key'')
   \<and> watchdog (fst (snd (fetchDynamicConfigWithRetry doubling
          \<lparr>options = \<lparr>apiKey = None, appId = Some ''abcdefgh12345:23405''\<rparr>\<rparr>
          [succeeds] example_world))) = None
   \<and> watchdogs_armed (trace (snd (snd (fetchDynamicConfigWithRetry doubling
          \<lparr>options = \<lparr>apiKey = None, appId = Some ''abcdefgh12345:23405''\<rparr>\<rparr>
          [succeeds] example_world)))) = []"
  by (simp add: fetchDynamicConfigWithRetry_def truthy_def example_world_def)

text \<open>
  C6, amended. A top-level call for a configured app arms the watchdog once, for 60000
  milliseconds, before anything else, and the retry loop arms no other watchdog. Whenever
  the loop starts a wait while the watchdog is pending and due before the wait's end, the
  call is rejected at the watchdog's time with the fetch-throttle error that carries the
  end time of that wait; no request is sent and the map is as it was. For a top-level call
  that finds metadata whose end time lies beyond the watchdog's, all of this happens in the
  first wait.
\<close>

theorem watchdog_cuts_pending_wait:
  assumes "configured app"
  shows "(\<forall>r c' s'. fetchDynamicConfigWithRetry calculateBackoffMillis app envs s = (r, c', s') \<longrightarrow>
            (\<exists>evs. trace s' = trace s @ WatchdogArmed 60000 # evs \<and> watchdogs_armed evs = []))
    \<and> FETCH_TIMEOUT_MILLIS = 60000
    \<and> (\<forall>wd. watchdog c = Some wd \<and> now s \<le> wd \<and> wd < throttleEndTimeMillis tm \<longrightarrow>
          attemptFetchDynamicConfigWithRetry calculateBackoffMillis app tm c envs s =
            (RejectedWith (throttled (throttleEndTimeMillis tm)),
             c\<lparr>signal := (signal c)\<lparr>listeners := map listener (listeners (signal c)) @
                 [\<lparr>requested_end = throttleEndTimeMillis tm, due = throttleEndTimeMillis tm, armed = False,
                   settled = RejectedWith (throttled (throttleEndTimeMillis tm))\<rparr>]\<rparr>,
               watchdog := None\<rparr>,
             s\<lparr>now := wd,
                trace := trace s @ [TimeoutArmed (throttleEndTimeMillis tm - now s), Aborted]\<rparr>))
    \<and> (\<forall>stored. appThrottleMetadata s (the (appId (options app))) = Some stored
                 \<and> now s + 60000 < throttleEndTimeMillis stored \<longrightarrow>
          fetchDynamicConfigWithRetry calculateBackoffMillis app envs s =
            (RejectedWith (throttled (throttleEndTimeMillis stored)),
             \<lparr>signal = \<lparr>listeners =
                 [\<lparr>requested_end = throttleEndTimeMillis stored, due = throttleEndTimeMillis stored,
                   armed = False,
                   settled = RejectedWith (throttled (throttleEndTimeMillis stored))\<rparr>]\<rparr>,
              watchdog = None\<rparr>,
             s\<lparr>now := now s + 60000,
                trace := trace s @ [WatchdogArmed 60000,
                                    TimeoutArmed (throttleEndTimeMillis stored - now s), Aborted]\<rparr>))"
proof (intro conjI allI impI)
  fix r c' s'
  assume "fetchDynamicConfigWithRetry calculateBackoffMillis app envs s = (r, c', s')"
  from top_level_trace [OF assms this]
  show "\<exists>evs. trace s' = trace s @ WatchdogArmed 60000 # evs \<and> watchdogs_armed evs = []" .
next
  show "FETCH_TIMEOUT_MILLIS = 60000" by (simp add: FETCH_TIMEOUT_MILLIS_def)
next
  fix wd
  assume "watchdog c = Some wd \<and> now s \<le> wd \<and> wd < throttleEndTimeMillis tm"
  then have wd: "watchdog c = Some wd" "now s \<le> wd" "wd < throttleEndTimeMillis tm" by simp_all
  from cut_attempt [OF assms wd]
  show "attemptFetchDynamicConfigWithRetry calculateBackoffMillis app tm c envs s =
            (RejectedWith (throttled (throttleEndTimeMillis tm)),
             c\<lparr>signal := (signal c)\<lparr>listeners := map listener (listeners (signal c)) @
                 [\<lparr>requested_end = throttleEndTimeMillis tm, due = throttleEndTimeMillis tm, armed = False,
                   settled = RejectedWith (throttled (throttleEndTimeMillis tm))\<rparr>]\<rparr>,
               watchdog := None\<rparr>,
             s\<lparr>now := wd,
                trace := trace s @ [TimeoutArmed (throttleEndTimeMillis tm - now s), Aborted]\<rparr>)" .
next
  fix stored
  assume "appThrottleMetadata s (the (appId (options app))) = Some stored
                 \<and> now s + 60000 < throttleEndTimeMillis stored"
  then have st: "appThrottleMetadata s (the (appId (options app))) = Some stored"
    and late: "now s + 60000 < throttleEndTimeMillis stored" by simp_all
  have "fetchDynamicConfigWithRetry calculateBackoffMillis app envs s =
      attemptFetchDynamicConfigWithRetry calculateBackoffMillis app stored
        \<lparr>signal = \<lparr>listeners = []\<rparr>, watchdog = Some (now s + 60000)\<rparr> envs
        (s\<lparr>trace := trace s @ [WatchdogArmed 60000]\<rparr>)"
    by (simp add: top_level_configured [OF assms] st)
  also have "\<dots> = (RejectedWith (throttled (throttleEndTimeMillis stored)),
             \<lparr>signal = \<lparr>listeners =
                 [\<lparr>requested_end = throttleEndTimeMillis stored, due = throttleEndTimeMillis stored,
                   armed = False,
                   settled = RejectedWith (throttled (throttleEndTimeMillis stored))\<rparr>]\<rparr>,
              watchdog = None\<rparr>,
             s\<lparr>now := now s + 60000,
                trace := trace s @ [WatchdogArmed 60000,
                                    TimeoutArmed (throttleEndTimeMillis stored - now s), Aborted]\<rparr>)"
    using late by (subst cut_attempt [OF assms, where wd = "now s + 60000"]) simp_all
  finally show "fetchDynamicConfigWithRetry calculateBackoffMillis app envs s =
            (RejectedWith (throttled (throttleEndTimeMillis stored)),
             \<lparr>signal = \<lparr>listeners =
                 [\<lparr>requested_end = throttleEndTimeMillis stored, due = throttleEndTimeMillis stored,
                   armed = False,
                   settled = RejectedWith (throttled (throttleEndTimeMillis stored))\<rparr>]\<rparr>,
              watchdog = None\<rparr>,
             s\<lparr>now := now s + 60000,
                trace := trace s @ [WatchdogArmed 60000,
                                    TimeoutArmed (throttleEndTimeMillis stored - now s), Aborted]\<rparr>)" .
qed

text \<open>
  A call at time 1000 that finds the app throttled until 70000: the watchdog, due at
  61000, cuts the first wait.
\<close>

theorem watchdog_cuts_pending_wait_witness:
  "configured fakeAppParams
   \<and> fetchDynamicConfigWithRetry doubling fakeAppParams [succeeds]
       \<lparr>now = 1000,
        appThrottleMetadata = [''abcdefgh12345:23405'' \<mapsto> \<lparr>backoffCount = 3, throttleEndTimeMillis = 70000\<rparr>],
        trace = []\<rparr>
     = (RejectedWith (FirebaseError (Inl FETCH_THROTTLE) [(''throttleEndTimeMillis'', 70000)]),
        \<lparr>signal = \<lparr>listeners =
           [\<lparr>requested_end = 70000, due = 70000, armed = False,
             settled = RejectedWith (FirebaseError (Inl FETCH_THROTTLE) [(''throttleEndTimeMillis'', 70000)])\<rparr>]\<rparr>,
         watchdog = None\<rparr>,
        \<lparr>now = 61000,
         appThrottleMetadata = [''abcdefgh12345:23405'' \<mapsto> \<lparr>backoffCount = 3, throttleEndTimeMillis = 70000\<rparr>],
         trace = [WatchdogArmed 60000, TimeoutArmed 69000, Aborted]\<rparr>)
   \<and> attemptFetchDynamicConfigWithRetry doubling fakeAppParams
       \<lparr>backoffCount = 3, throttleEndTimeMillis = 70000\<rparr> example_call [succeeds] example_world
     = (RejectedWith (FirebaseError (Inl FETCH_THROTTLE) [(''throttleEndTimeMillis'', 70000)]),
        \<lparr>signal = \<lparr>listeners =
           [\<lparr>requested_end = 70000, due = 70000, armed = False,
             settled = RejectedWith (FirebaseError (Inl FETCH_THROTTLE) [(''throttleEndTimeMillis'', 70000)])\<rparr>]\<rparr>,
         watchdog = None\<rparr>,
        \<lparr>now = 61000, appThrottleMetadata = Map.empty, trace = [TimeoutArmed 69000, Aborted]\<rparr>)"
  using watchdog_cuts_pending_wait [where app = fakeAppParams and calculateBackoffMillis = doubling
      and envs = "[succeeds]" and c = example_call and s = example_world
      and tm = "\<lparr>backoffCount = 3, throttleEndTimeMillis = 70000\<rparr>"]
    watchdog_cuts_pending_wait [where app = fakeAppParams and calculateBackoffMillis = doubling
      and envs = "[succeeds]" and c = example_call
      and s = "\<lparr>now = 1000,
        appThrottleMetadata = [''abcdefgh12345:23405'' \<mapsto> \<lparr>backoffCount = 3, throttleEndTimeMillis = 70000\<rparr>],
        trace = []\<rparr>"
      and tm = "\<lparr>backoffCount = 3, throttleEndTimeMillis = 70000\<rparr>"]
  by (simp add: configured_def truthy_def fakeAppParams_def example_call_def example_world_def
      throttled_def ERROR_FACTORY_create_def
      del: attemptFetchDynamicConfigWithRetry.simps)

section \<open>The map as a plain object\<close>

text \<open>
  For a key that is neither \<^verbatim>\<open>__proto__\<close> nor the name of a member of
  \<^verbatim>\<open>Object.prototype\<close>, an object whose prototype is \<^verbatim>\<open>Object.prototype\<close> is read and
  written as the map of its own properties is, and the read of lines 80 to 85 is the one
  of the top-level call above.
\<close>

lemma ordinary_key:
  assumes "prototype_metadata object = None" "key \<noteq> ''__proto__''"
    and "key \<notin> set Object_prototype_members"
  shows "get_property object key
           = (case own_properties object key of None \<Rightarrow> Undefined | Some tm \<Rightarrow> Metadata tm)"
    and "set_property object key tm = object\<lparr>own_properties := (own_properties object)(key \<mapsto> tm)\<rparr>"
    and "read_throttleMetadata object key t
           = Metadata (case own_properties object key of
                         Some stored \<Rightarrow> stored
                       | None \<Rightarrow> \<lparr>backoffCount = 0, throttleEndTimeMillis = t\<rparr>)"
  using assms
  by (auto simp: get_property_def set_property_def read_throttleMetadata_def truthy_property_def
      split: option.splits)

text \<open>
  The writes of a trace that stores nothing under \<^verbatim>\<open>__proto__\<close> leave the prototype as
  it is and do to the object's own properties what they do to the map.
\<close>

lemma write_through_ordinary:
  assumes "\<And>tm. Stored ''__proto__'' tm \<notin> set evs"
  shows "write_through evs object = object\<lparr>own_properties := apply_writes evs (own_properties object)\<rparr>"
  using assms
proof (induction evs arbitrary: object)
  case Nil
  then show ?case by simp
next
  case (Cons ev evs)
  then have rest: "\<And>tm. Stored ''__proto__'' tm \<notin> set evs" by simp
  show ?case
  proof (cases ev)
    case (Stored a tm)
    with Cons.prems have "a \<noteq> ''__proto__''" by auto
    then show ?thesis
      by (simp add: Stored Cons.IH [OF rest] set_property_def fun_upd_def)
  next
    case (Deleted a)
    then show ?thesis by (simp add: Cons.IH [OF rest] delete_property_def fun_upd_def)
  qed (simp_all add: Cons.IH [OF rest])
qed

text \<open>
  So it is for the writes of a run of the retry loop, for an app whose id is not
  \<^verbatim>\<open>__proto__\<close>: the loop writes under the app's id only.
\<close>

lemma stored_key_in_stores:
  "Stored a tm \<in> set evs \<Longrightarrow> a \<in> set (map fst (stores evs))"
  by (induction evs rule: stores.induct) auto

lemma run_on_plain_object:
  assumes nonneg: "\<And>n j. 0 \<le> cbm n j"
    and run: "attemptFetchDynamicConfigWithRetry cbm app tm c envs s = (r, c', s')"
    and key: "the (appId (options app)) \<noteq> ''__proto__''"
    and own: "own_properties object = appThrottleMetadata s"
  shows "\<exists>evs. trace s' = trace s @ evs
           \<and> write_through evs object = object\<lparr>own_properties := appThrottleMetadata s'\<rparr>"
proof -
  from attempt_run_ok [OF nonneg run] obtain evs where
    evs: "trace s' = trace s @ evs"
    and ok: "run_ok app tm envs (appThrottleMetadata s) (appThrottleMetadata s') evs"
    by blast
  from ok have keys: "map fst (stores evs) = replicate (length (stores evs)) (the (appId (options app)))"
    and m: "appThrottleMetadata s' = apply_writes evs (appThrottleMetadata s)"
    by (simp_all add: run_ok_def)
  have "\<And>stored. Stored ''__proto__'' stored \<notin> set evs"
  proof
    fix stored
    assume "Stored ''__proto__'' stored \<in> set evs"
    from stored_key_in_stores [OF this] keys
    have "''__proto__'' \<in> set (replicate (length (stores evs)) (the (appId (options app))))"
      by simp
    with key show False by auto
  qed
  from write_through_ordinary [OF this] have
    "write_through evs object = object\<lparr>own_properties := appThrottleMetadata s'\<rparr>"
    by (simp add: m own)
  with evs show ?thesis by blast
qed

text \<open>
  C3. For the app id \<^verbatim>\<open>constructor\<close> a successful request does not leave the next
  top-level call with the default. The loop, started at time 1000 with count 0, stores
  metadata under \<^verbatim>\<open>constructor\<close> after a failure with status 503 and deletes it after the
  request that succeeds. The object is then as it was made, with no property of its own;
  but the read of lines 80 to 85 under \<^verbatim>\<open>constructor\<close> yields what the object inherits,
  the function \<^verbatim>\<open>Object\<close>, which is truthy: the default with count 0 and the current time
  is not taken, and both fields that the loop destructures from what it is handed are
  \<^verbatim>\<open>undefined\<close>.
\<close>

theorem inherited_name_read_after_success:
  "(let app = \<lparr>options = \<lparr>apiKey = Some ''AAbbCCdd12345'', appId = Some ''constructor''\<rparr>\<rparr>;
        run = attemptFetchDynamicConfigWithRetry doubling app
                \<lparr>backoffCount = 0, throttleEndTimeMillis = 1000\<rparr> example_call
                [fails_with 503, succeeds] example_world;
        object = write_through (trace (snd (snd run))) empty_object;
        metadata = read_throttleMetadata object ''constructor'' (now (snd (snd run)))
    in fst run = Fulfilled \<lparr>measurementId = Some ''abcd-efgh-ijkl'', config_appId = None\<rparr>
       \<and> stores (trace (snd (snd run)))
           = [(''constructor'', \<lparr>backoffCount = 1, throttleEndTimeMillis = 2027\<rparr>)]
       \<and> last (trace (snd (snd run))) = Deleted ''constructor''
       \<and> now (snd (snd run)) = 2047
       \<and> object = empty_object
       \<and> metadata = Inherited
       \<and> metadata \<noteq> Metadata \<lparr>backoffCount = 0, throttleEndTimeMillis = 2047\<rparr>
       \<and> destructured_backoffCount metadata = None
       \<and> destructured_throttleEndTimeMillis metadata = None)"
  by (simp add: model_defs example_defs read_throttleMetadata_def get_property_def
      set_property_def delete_property_def empty_object_def truthy_property_def
      Object_prototype_members_def destructured_backoffCount_def
      destructured_throttleEndTimeMillis_def)

text \<open>
  C4. For the app id \<^verbatim>\<open>__proto__\<close> a failure that is not retriable does not delete the
  stored metadata. The loop, started at time 1000 with count 0, stores metadata after a
  failure with status 503: the assignment under \<^verbatim>\<open>__proto__\<close> makes the metadata the
  object's prototype and adds no property. The next request fails with status 400 and the
  call is rejected with that error, but the deletion under \<^verbatim>\<open>__proto__\<close> finds no
  property of the object's own and removes nothing: the metadata with count 1 is still
  the prototype, and it is what the read of lines 80 to 85 yields to the next top-level
  call.
\<close>

theorem proto_key_survives_delete:
  "(let app = \<lparr>options = \<lparr>apiKey = Some ''AAbbCCdd12345'', appId = Some ''__proto__''\<rparr>\<rparr>;
        run = attemptFetchDynamicConfigWithRetry doubling app
                \<lparr>backoffCount = 0, throttleEndTimeMillis = 1000\<rparr> example_call
                [fails_with 503, fails_with 400] example_world;
        object = write_through (trace (snd (snd run))) empty_object
    in fst run = RejectedWith (FirebaseError (Inr ''fetch-failed'') [(''httpStatus'', 400)])
       \<and> stores (trace (snd (snd run)))
           = [(''__proto__'', \<lparr>backoffCount = 1, throttleEndTimeMillis = 2027\<rparr>)]
       \<and> last (trace (snd (snd run))) = Deleted ''__proto__''
       \<and> now (snd (snd run)) = 2047
       \<and> object = \<lparr>own_properties = Map.empty,
                    prototype_metadata = Some \<lparr>backoffCount = 1, throttleEndTimeMillis = 2027\<rparr>\<rparr>
       \<and> get_property object ''__proto__''
           = Metadata \<lparr>backoffCount = 1, throttleEndTimeMillis = 2027\<rparr>
       \<and> read_throttleMetadata object ''__proto__'' 2047
           = Metadata \<lparr>backoffCount = 1, throttleEndTimeMillis = 2027\<rparr>)"
  by (simp add: model_defs example_defs read_throttleMetadata_def get_property_def
      set_property_def delete_property_def empty_object_def truthy_property_def)

section \<open>The request of \<^verbatim>\<open>fetchDynamicConfig\<close>\<close>

lemma GetSubstitution_plain:
  "CHR ''$'' \<notin> set rep \<Longrightarrow> GetSubstitution m b a rep = rep"
  by (induction m b a rep rule: GetSubstitution.induct) auto

lemma split_first_placeholder:
  "split_first ''{app-id}'' DYNAMIC_CONFIG_URL
     = Some (''https://firebase.googleapis.com/v1alpha/projects/-/apps/'', ''/webConfig'')"
  by (simp add: DYNAMIC_CONFIG_URL_def)

lemma replace_plain_app_id:
  "CHR ''$'' \<notin> set a \<Longrightarrow>
     replace DYNAMIC_CONFIG_URL ''{app-id}'' a
       = ''https://firebase.googleapis.com/v1alpha/projects/-/apps/'' @ a @ ''/webConfig''"
  by (simp add: replace_def split_first_placeholder GetSubstitution_plain)

lemma fetchDynamicConfig_unconfigured:
  "\<not> configured app \<Longrightarrow>
     fetchDynamicConfig app env s
       = (\<lparr>outcome = RejectedWith (Error ''no api key''), settles_at = now s\<rparr>, s)"
  by (auto simp: fetchDynamicConfig_def configured_def)

lemma fetchDynamicConfig_configured:
  assumes "apiKey (options app) = Some k" "k \<noteq> []" "appId (options app) = Some a" "a \<noteq> []"
    and "CHR ''$'' \<notin> set a"
  shows "fetchDynamicConfig app env s
       = (\<lparr>outcome = fetch_outcome env, settles_at = now s + int (latency env)\<rparr>,
          s\<lparr>trace := trace s @
              [FetchIssued (''https://firebase.googleapis.com/v1alpha/projects/-/apps/'' @ a @ ''/webConfig'')
                 \<lparr>request_method = ''GET'',
                  headers = [(''Accept'', ''application/json''), (''x-goog-api-key'', k)]\<rparr>]\<rparr>)"
  using assms
  by (simp add: fetchDynamicConfig_def truthy_def fetch_outcome_def getHeaders_def
      replace_plain_app_id Let_def)

text \<open>
  C7. An app id that holds a replacement pattern of \<^verbatim>\<open>String.prototype.replace\<close> is not
  what ends up in the URL: for the app id \<^verbatim>\<open>$&\<close> the pattern stands for the matched
  text, so the request goes to the template itself, with the placeholder still in it, and
  not to the template with the placeholder replaced by the app id.
\<close>

theorem app_id_pattern_is_expanded:
  "fetchDynamicConfig \<lparr>options = \<lparr>apiKey = Some ''AAbbCCdd12345'', appId = Some ''$&''\<rparr>\<rparr>
     succeeds example_world
   = (\<lparr>outcome = Fulfilled \<lparr>measurementId = Some ''abcd-efgh-ijkl'', config_appId = None\<rparr>,
       settles_at = 1020\<rparr>,
      \<lparr>now = 1000, appThrottleMetadata = Map.empty,
       trace = [FetchIssued ''https://firebase.googleapis.com/v1alpha/projects/-/apps/{app-id}/webConfig''
                  \<lparr>request_method = ''GET'',
                   headers = [(''Accept'', ''application/json''),
                              (''x-goog-api-key'', ''AAbbCCdd12345'')]\<rparr>]\<rparr>)
   \<and> ''https://firebase.googleapis.com/v1alpha/projects/-/apps/{app-id}/webConfig''
       \<noteq> ''https://firebase.googleapis.com/v1alpha/projects/-/apps/'' @ ''$&'' @ ''/webConfig''"
  by (simp add: fetchDynamicConfig_def truthy_def getHeaders_def replace_def DYNAMIC_CONFIG_URL_def
      succeeds_def mockResponse_def mockAnalyticsId_def example_world_def Let_def)

theorem app_id_pattern_is_expanded_witness:
  "trace (snd (fetchDynamicConfig \<lparr>options = \<lparr>apiKey = Some ''AAbbCCdd12345'', appId = Some ''$&''\<rparr>\<rparr>
     succeeds example_world))
   = [FetchIssued DYNAMIC_CONFIG_URL
        \<lparr>request_method = ''GET'',
         headers = [(''Accept'', ''application/json''), (''x-goog-api-key'', ''AAbbCCdd12345'')]\<rparr>]"
  using app_id_pattern_is_expanded by (simp add: DYNAMIC_CONFIG_URL_def)

section \<open>Identity initialization\<close>

text \<open>
  C8. With the API key, app id and installation id of initialize-ids.test.ts and an
  endpoint that answers with status 200 and the body \<^verbatim>\<open>{"measurementId":"abcd-efgh-ijkl"}\<close>,
  \<^verbatim>\<open>initializeGAId\<close> sends one request, for the app's URL and with the API key, and then
  calls the gtag function twice: with \<^verbatim>\<open>'js'\<close> and the date, and with \<^verbatim>\<open>'config'\<close>, the
  measurement id, and the object of firebase_id, origin and update. Its promise is
  fulfilled with the measurement id.
\<close>

theorem initializeGAId_configures_gtag:
  "initializeGAId fakeAppParams
     \<lparr>latency = l, answer = Responded \<lparr>status = 200, json = Inr \<lparr>measurementId = Some ''abcd-efgh-ijkl'', config_appId = None\<rparr>\<rparr>, jitter = j\<rparr>
     \<lparr>getId_result = Fulfilled ''fid-1234-zyxw'', getId_latency = m\<rparr> s g
   = (Fulfilled (Some ''abcd-efgh-ijkl''),
      s\<lparr>now := now s + int (max l m),
         trace := trace s @
           [FetchIssued ''https://firebase.googleapis.com/v1alpha/projects/-/apps/abcdefgh12345:23405/webConfig''
              \<lparr>request_method = ''GET'',
               headers = [(''Accept'', ''application/json''), (''x-goog-api-key'', ''AAbbCCdd12345'')]\<rparr>]\<rparr>,
      g\<lparr>gtag_calls := gtag_calls g @
           [[JString ''js'', JDate (now s + int (max l m))],
            [JString ''config'', JString ''abcd-efgh-ijkl'',
             JObject [(''firebase_id'', JString ''fid-1234-zyxw''),
                      (''origin'', JString ''firebase''),
                      (''update'', JBool True)]]],
         measurementIdToAppId := (measurementIdToAppId g)(''abcd-efgh-ijkl'' \<mapsto> None),
         dynamicConfigPromisesList := dynamicConfigPromisesList g @
           [\<lparr>outcome = Fulfilled \<lparr>measurementId = Some ''abcd-efgh-ijkl'', config_appId = None\<rparr>,
             settles_at = now s + int l\<rparr>]\<rparr>)"
  by (simp add: initializeGAId_def fetchDynamicConfig_def truthy_def getHeaders_def replace_def
      DYNAMIC_CONFIG_URL_def fakeAppParams_def Promise_all_def gtag_def js_of_def property_key_def
      GtagCommand_CONFIG_def GA_FID_KEY_def ORIGIN_KEY_def Let_def max_def)

section \<open>Event logging\<close>

text \<open>
  C9. With \<^verbatim>\<open>options.global\<close> set, \<^verbatim>\<open>logEvent\<close> calls the gtag function at once,
  whatever the state of the promise (pending included), with \<^verbatim>\<open>'event'\<close>, the event name
  and the event parameters as they are (an empty object if there are none): nothing is
  added to them. Without it (no options, or \<^verbatim>\<open>global\<close> false), nothing happens while the
  promise is pending; once it is fulfilled with a configuration whose measurement id is the
  string \<open>m\<close>, the gtag function is called with the parameters in which \<^verbatim>\<open>send_to\<close> is
  the string \<open>m\<close>, in place of any \<^verbatim>\<open>send_to\<close> of the event parameters (and
  \<^verbatim>\<open>undefined\<close> if the configuration has no measurement id); if it is rejected, the error
  is logged and the gtag function is not called.
\<close>

theorem logEvent_dispatch:
  "logEvent p eventName eventParams (Some \<lparr>global = True\<rparr>) g
     = g\<lparr>gtag_calls := gtag_calls g @
          [[JString ''event'', JString eventName,
            JObject (case eventParams of None \<Rightarrow> [] | Some ps \<Rightarrow> ps)]]\<rparr>
   \<and> logEvent Pending eventName eventParams None g = g
   \<and> logEvent Pending eventName eventParams (Some \<lparr>global = False\<rparr>) g = g
   \<and> logEvent (Fulfilled \<lparr>measurementId = Some m, config_appId = a\<rparr>) eventName eventParams None g
     = g\<lparr>gtag_calls := gtag_calls g @
          [[JString ''event'', JString eventName,
            JObject (AList.update ''send_to'' (JString m)
                       (case eventParams of None \<Rightarrow> [] | Some ps \<Rightarrow> ps))]]\<rparr>
   \<and> logEvent (Fulfilled \<lparr>measurementId = Some m, config_appId = a\<rparr>) eventName eventParams
       (Some \<lparr>global = False\<rparr>) g
     = g\<lparr>gtag_calls := gtag_calls g @
          [[JString ''event'', JString eventName,
            JObject (AList.update ''send_to'' (JString m)
                       (case eventParams of None \<Rightarrow> [] | Some ps \<Rightarrow> ps))]]\<rparr>
   \<and> map_of (AList.update ''send_to'' (JString m)
               (case eventParams of None \<Rightarrow> [] | Some ps \<Rightarrow> ps))
     = (map_of (case eventParams of None \<Rightarrow> [] | Some ps \<Rightarrow> ps))(''send_to'' \<mapsto> JString m)
   \<and> logEvent (Fulfilled \<lparr>measurementId = None, config_appId = a\<rparr>) eventName eventParams None g
     = g\<lparr>gtag_calls := gtag_calls g @
          [[JString ''event'', JString eventName,
            JObject (AList.update ''send_to'' JUndefined
                       (case eventParams of None \<Rightarrow> [] | Some ps \<Rightarrow> ps))]]\<rparr>
   \<and> logEvent (RejectedWith e) eventName eventParams None g = g\<lparr>logged := logged g @ [e]\<rparr>
   \<and> logEvent (RejectedWith e) eventName eventParams (Some \<lparr>global = False\<rparr>) g
     = g\<lparr>logged := logged g @ [e]\<rparr>"
  by (simp add: logEvent_def gtag_def logger_error_def GtagCommand_EVENT_def js_of_def update_conv')

section \<open>Firestore lite\<close>

text \<open>
  C10. \<^verbatim>\<open>doc('')\<close> throws the \<^verbatim>\<open>FirestoreError\<close> with code INVALID_ARGUMENT and the
  message "Document path must be a non-empty string". \<^verbatim>\<open>doc()\<close> takes the identifier that
  \<^verbatim>\<open>AutoId.newId()\<close> draws as the path: when \<^verbatim>\<open>ResourcePath.fromString\<close> accepts it,
  the result is the reference to the document of that path under the collection.
\<close>

theorem doc_empty_path_and_auto_id:
  "doc fromString child newId (CollectionReference path firestore) (Some [])
     = Inl (FirestoreError INVALID_ARGUMENT ''Document path must be a non-empty string'')
   \<and> (fromString newId = Inr p \<longrightarrow>
        doc fromString child newId (CollectionReference path firestore) None
          = Inr (DocumentReference (DocumentKey (child path p)) firestore))"
  by (simp add: truthy_def)

text \<open>The collection "rooms", and the identifier drawn is twenty letters.\<close>

theorem doc_empty_path_and_auto_id_witness:
  "single_segment ''AbCdEfGhIjKlMnOpQrSt'' = Inr [''AbCdEfGhIjKlMnOpQrSt'']
   \<and> doc single_segment append ''AbCdEfGhIjKlMnOpQrSt'' (CollectionReference [''rooms''] ()) (Some [])
     = Inl (FirestoreError INVALID_ARGUMENT ''Document path must be a non-empty string'')
   \<and> doc single_segment append ''AbCdEfGhIjKlMnOpQrSt'' (CollectionReference [''rooms''] ()) None
     = Inr (DocumentReference (DocumentKey [''rooms'', ''AbCdEfGhIjKlMnOpQrSt'']) ())"
  using doc_empty_path_and_auto_id [where fromString = single_segment and child = append
      and newId = "''AbCdEfGhIjKlMnOpQrSt''" and path = "[''rooms'']" and firestore = "()"
      and p = "[''AbCdEfGhIjKlMnOpQrSt'']"]
  by (simp add: single_segment_def)

end
